theory Spec2Isabelle
  imports Complex_Main
begin

section \<open>Numeric model\<close>

text \<open>
  The optimizers of \<^verbatim>\<open>viabel/optimizing_classes.py\<close> compute on numpy arrays of
  floats. A float is modelled as a real number or one of the three special values of
  IEEE 754, with the rules of IEEE 754 for the special values: a division by zero, the
  square root of a negative number and \<open>inf - inf\<close> do not raise in numpy, they give
  \<open>inf\<close> or \<open>nan\<close>, and every comparison with \<open>nan\<close> is false. On finite values the
  operations are those of the reals: rounding, overflow and the sign of zero are not
  modelled.
\<close>

datatype npfloat = Fin real | PInf | NInf | NaN

fun is_finite :: "npfloat \<Rightarrow> bool" where
  "is_finite (Fin a) = True"
| "is_finite PInf = False"
| "is_finite NInf = False"
| "is_finite NaN = False"

text \<open>\<open>signed_inf a\<close> is \<open>a * inf\<close>: the infinity with the sign of \<open>a\<close>, and \<open>nan\<close> for \<open>a = 0\<close>.\<close>

definition signed_inf :: "real \<Rightarrow> npfloat" where
  "signed_inf a = (if 0 < a then PInf else if a < 0 then NInf else NaN)"

fun fneg :: "npfloat \<Rightarrow> npfloat" where
  "fneg (Fin a) = Fin (- a)"
| "fneg PInf = NInf"
| "fneg NInf = PInf"
| "fneg NaN = NaN"

fun fadd :: "npfloat \<Rightarrow> npfloat \<Rightarrow> npfloat" where
  "fadd (Fin a) (Fin b) = Fin (a + b)"
| "fadd (Fin a) PInf = PInf"
| "fadd (Fin a) NInf = NInf"
| "fadd PInf (Fin b) = PInf"
| "fadd PInf PInf = PInf"
| "fadd PInf NInf = NaN"
| "fadd NInf (Fin b) = NInf"
| "fadd NInf PInf = NaN"
| "fadd NInf NInf = NInf"
| "fadd NaN y = NaN"
| "fadd x NaN = NaN"

definition fsub :: "npfloat \<Rightarrow> npfloat \<Rightarrow> npfloat" where
  "fsub x y = fadd x (fneg y)"

fun fmul :: "npfloat \<Rightarrow> npfloat \<Rightarrow> npfloat" where
  "fmul (Fin a) (Fin b) = Fin (a * b)"
| "fmul (Fin a) PInf = signed_inf a"
| "fmul (Fin a) NInf = signed_inf (- a)"
| "fmul PInf (Fin b) = signed_inf b"
| "fmul NInf (Fin b) = signed_inf (- b)"
| "fmul PInf PInf = PInf"
| "fmul PInf NInf = NInf"
| "fmul NInf PInf = NInf"
| "fmul NInf NInf = PInf"
| "fmul NaN y = NaN"
| "fmul x NaN = NaN"

text \<open>
  Division: \<open>a / 0\<close> is \<open>nan\<close> for \<open>a = 0\<close> and an infinity with the sign of \<open>a\<close>
  otherwise (the zero divisor is taken as \<open>+0\<close>).
\<close>

fun fdiv :: "npfloat \<Rightarrow> npfloat \<Rightarrow> npfloat" where
  "fdiv (Fin a) (Fin b) = (if b = 0 then signed_inf a else Fin (a / b))"
| "fdiv (Fin a) PInf = Fin 0"
| "fdiv (Fin a) NInf = Fin 0"
| "fdiv PInf (Fin b) = (if 0 \<le> b then PInf else NInf)"
| "fdiv NInf (Fin b) = (if 0 \<le> b then NInf else PInf)"
| "fdiv PInf PInf = NaN"
| "fdiv PInf NInf = NaN"
| "fdiv NInf PInf = NaN"
| "fdiv NInf NInf = NaN"
| "fdiv NaN y = NaN"
| "fdiv x NaN = NaN"

fun fsqrt :: "npfloat \<Rightarrow> npfloat" where
  "fsqrt (Fin a) = (if a < 0 then NaN else Fin (sqrt a))"
| "fsqrt PInf = PInf"
| "fsqrt NInf = NaN"
| "fsqrt NaN = NaN"

text \<open>\<open>x**2\<close>\<close>

definition fsquare :: "npfloat \<Rightarrow> npfloat" where
  "fsquare x = fmul x x"

text \<open>\<open>x < y\<close> and \<open>x <= y\<close>\<close>

fun fless :: "npfloat \<Rightarrow> npfloat \<Rightarrow> bool" where
  "fless (Fin a) (Fin b) = (a < b)"
| "fless (Fin a) PInf = True"
| "fless (Fin a) NInf = False"
| "fless PInf y = False"
| "fless NInf (Fin b) = True"
| "fless NInf PInf = True"
| "fless NInf NInf = False"
| "fless NaN y = False"
| "fless x NaN = False"

fun fle :: "npfloat \<Rightarrow> npfloat \<Rightarrow> bool" where
  "fle (Fin a) (Fin b) = (a \<le> b)"
| "fle (Fin a) PInf = True"
| "fle (Fin a) NInf = False"
| "fle PInf (Fin b) = False"
| "fle PInf PInf = True"
| "fle PInf NInf = False"
| "fle NInf (Fin b) = True"
| "fle NInf PInf = True"
| "fle NInf NInf = True"
| "fle NaN y = False"
| "fle x NaN = False"

section \<open>Arrays\<close>

text \<open>
  A one-dimensional numpy array is a list of floats. An element-wise operation on two
  arrays follows numpy's broadcasting: the lengths agree, or one of them is 1 and that
  element is repeated; any other pair of lengths raises \<open>ValueError\<close>.
\<close>

type_synonym vec = "npfloat list"

datatype pyerr =
    ValueError
  | TypeError
  | AttributeError
  | IndexError
  | ZeroDivisionError
  | UnboundLocalError
  | UndefinedCast
  | ObjectiveError

definition broadcast :: "(npfloat \<Rightarrow> npfloat \<Rightarrow> npfloat) \<Rightarrow> vec \<Rightarrow> vec \<Rightarrow> pyerr + vec" where
  "broadcast f xs ys =
     (if length xs = length ys then Inr (map2 f xs ys)
      else if length xs = 1 then Inr (map (f (hd xs)) ys)
      else if length ys = 1 then Inr (map (\<lambda>x. f x (hd ys)) xs)
      else Inl ValueError)"

text \<open>
  \<open>a -= b\<close> writes into \<open>a\<close>: \<open>b\<close> is broadcast to the shape of \<open>a\<close>, which
  cannot grow.
\<close>

definition isub :: "vec \<Rightarrow> vec \<Rightarrow> pyerr + vec" where
  "isub a b =
     (if length b = length a then Inr (map2 fsub a b)
      else if length b = 1 then Inr (map (\<lambda>x. fsub x (hd b)) a)
      else Inl ValueError)"

text \<open>\<open>np.sum\<close>; the sum of no element is \<open>0.0\<close>.\<close>

definition fsum :: "vec \<Rightarrow> npfloat" where
  "fsum xs = foldl fadd (Fin 0) xs"

text \<open>\<open>np.mean\<close> of a flat array: the sum over the count, \<open>nan\<close> (\<open>0/0\<close>) on no element.\<close>

definition fmean :: "vec \<Rightarrow> npfloat" where
  "fmean xs = fdiv (fsum xs) (Fin (real (length xs)))"

text \<open>
  \<open>np.mean(rows, axis=0)\<close> of a two-dimensional array with \<open>d\<close> columns, given as
  the list of its rows: the mean of each column.
\<close>

definition mean_axis0 :: "nat \<Rightarrow> vec list \<Rightarrow> vec" where
  "mean_axis0 d rows = map (\<lambda>j. fmean (map (\<lambda>r. r ! j) rows)) [0..<d]"

text \<open>\<open>np.dot\<close> of two one-dimensional arrays: no broadcasting.\<close>

definition dot :: "vec \<Rightarrow> vec \<Rightarrow> pyerr + npfloat" where
  "dot xs ys = (if length xs = length ys then Inr (fsum (map2 fmul xs ys)) else Inl ValueError)"

text \<open>
  The slice \<open>xs[i:]\<close> of Python: a negative \<open>i\<close> counts from the end, and \<open>-0\<close> is
  \<open>0\<close>, so \<open>xs[-0:]\<close> is the whole of \<open>xs\<close>.
\<close>

definition slice_from :: "int \<Rightarrow> 'a list \<Rightarrow> 'a list" where
  "slice_from i xs =
     (if i < 0 then drop (nat (int (length xs) + i)) xs else drop (nat i) xs)"

text \<open>\<open>np.reshape(xs, (m, b))\<close>: \<open>m\<close> rows of \<open>b\<close> consecutive elements.\<close>

definition reshape :: "vec \<Rightarrow> int \<Rightarrow> int \<Rightarrow> pyerr + vec list" where
  "reshape xs m b =
     (if m < 0 \<or> b < 0 \<or> int (length xs) \<noteq> m * b then Inl ValueError
      else Inr (map (\<lambda>i. take (nat b) (drop (i * nat b) xs)) [0..<nat m]))"

text \<open>\<open>int(x)\<close> of a float: truncation towards zero.\<close>

definition py_int :: "real \<Rightarrow> int" where
  "py_int x = (if 0 \<le> x then \<lfloor>x\<rfloor> else \<lceil>x\<rceil>)"

section \<open>Classes and instances\<close>

text \<open>
  The five classes of the module. \<open>Optimizer\<close> derives from \<open>ABC\<close>, so a class of
  the hierarchy can be instantiated only when none of its abstract methods is left
  (the instantiation raises \<open>TypeError\<close> otherwise, before \<open>__init__\<close> runs).
\<close>

datatype pyclass = Optimizer | StochasticGradientOptimizer | RMSProp | AdaGrad | SASA

text \<open>The class and its bases, in method resolution order.\<close>

fun mro :: "pyclass \<Rightarrow> pyclass list" where
  "mro Optimizer = [Optimizer]"
| "mro StochasticGradientOptimizer = [StochasticGradientOptimizer, Optimizer]"
| "mro RMSProp = [RMSProp, StochasticGradientOptimizer, Optimizer]"
| "mro AdaGrad = [AdaGrad, StochasticGradientOptimizer, Optimizer]"
| "mro SASA = [SASA, Optimizer]"

text \<open>
  The methods that the body of each class defines: \<open>True\<close> marks a method under
  \<open>@abstractmethod\<close>.
\<close>

fun methods :: "pyclass \<Rightarrow> (string \<times> bool) list" where
  "methods Optimizer = [(''optimize'', True)]"
| "methods StochasticGradientOptimizer =
     [(''__init__'', False), (''optimize'', False), (''descent_direction'', True)]"
| "methods RMSProp = [(''__init__'', False), (''descent_direction'', False)]"
| "methods AdaGrad = [(''__init__'', False), (''descent_direction'', False)]"
| "methods SASA =
     [(''__init__'', False), (''convergence_check'', False), (''convergence_test'', False)]"

text \<open>The lookup of a method name along a list of classes: the first class that defines it.\<close>

fun lookup_method :: "pyclass list \<Rightarrow> string \<Rightarrow> bool option" where
  "lookup_method [] n = None"
| "lookup_method (c # cs) n =
     (case map_of (methods c) n of Some a \<Rightarrow> Some a | None \<Rightarrow> lookup_method cs n)"

text \<open>
  \<open>__abstractmethods__\<close>, as \<open>ABCMeta\<close> computes it: the names declared abstract in the
  class or a base whose lookup on the class still finds an abstract method.
\<close>

definition abstractmethods :: "pyclass \<Rightarrow> string list" where
  "abstractmethods c =
     filter (\<lambda>n. lookup_method (mro c) n = Some True)
       (remdups (map fst (filter snd (concat (map methods (mro c))))))"

definition issubclass :: "pyclass \<Rightarrow> pyclass \<Rightarrow> bool" where
  "issubclass c d = (d \<in> set (mro c))"

text \<open>
  An instance of an optimizer class: its class and its attribute dictionary (all the
  attributes that the module stores on an optimizer are floats). Reading an attribute
  that the dictionary lacks raises \<open>AttributeError\<close>: no class of the module has a
  class attribute that is not a method.
\<close>

record pyobj =
  klass :: pyclass
  attrs :: "string \<rightharpoonup> real"

definition getattr :: "pyobj \<Rightarrow> string \<Rightarrow> pyerr + real" where
  "getattr obj n = (case attrs obj n of None \<Rightarrow> Inl AttributeError | Some v \<Rightarrow> Inr v)"

text \<open>What a caller may pass where an optimizer is expected.\<close>

datatype pyvalue = PyObj pyobj | PyNone | PyFloat real

definition isinstance :: "pyvalue \<Rightarrow> pyclass \<Rightarrow> bool" where
  "isinstance v c = (case v of PyObj obj \<Rightarrow> issubclass (klass obj) c | _ \<Rightarrow> False)"

text \<open>
  \<open>cls(...)\<close>: the check of the abstract methods, then \<open>__init__\<close> (given here as the
  result \<open>init\<close> of running it).
\<close>

definition instantiate :: "pyclass \<Rightarrow> (pyerr + 'a) \<Rightarrow> pyerr + 'a" where
  "instantiate c init = (if abstractmethods c = [] then init else Inl TypeError)"

section \<open>Descent directions\<close>

text \<open>\<open>StochasticGradientOptimizer.__init__\<close> stores the learning rate as \<open>_learning_rate\<close>.\<close>

definition StochasticGradientOptimizer_init :: "pyobj \<Rightarrow> real \<Rightarrow> pyobj" where
  "StochasticGradientOptimizer_init self learning_rate =
     self\<lparr>attrs := (attrs self)(''_learning_rate'' \<mapsto> learning_rate)\<rparr>"

definition RMSProp_init :: "real \<Rightarrow> real \<Rightarrow> real \<Rightarrow> pyobj" where
  "RMSProp_init learning_rate beta jitter =
     StochasticGradientOptimizer_init
       \<lparr>klass = RMSProp, attrs = Map.empty(''_beta'' \<mapsto> beta, ''_jitter'' \<mapsto> jitter)\<rparr>
       learning_rate"

definition AdaGrad_init :: "real \<Rightarrow> real \<Rightarrow> pyobj" where
  "AdaGrad_init learning_rate jitter =
     StochasticGradientOptimizer_init
       \<lparr>klass = AdaGrad, attrs = Map.empty(''_jitter'' \<mapsto> jitter)\<rparr>
       learning_rate"

text \<open>
  \<open>RMSProp.descent_direction(self, grad, history)\<close>; \<open>history\<close> is \<open>None\<close> on the
  first call. The result is the pair \<open>(descent_dir, history)\<close>.
\<close>

definition RMSProp_descent_direction :: "pyobj \<Rightarrow> vec \<Rightarrow> vec option \<Rightarrow> pyerr + vec \<times> vec" where
  "RMSProp_descent_direction self grad history =
     (let history = (case history of None \<Rightarrow> map fsquare grad | Some h \<Rightarrow> h) in
      case getattr self ''_beta'' of Inl e \<Rightarrow> Inl e
      | Inr beta \<Rightarrow>
      (case broadcast fadd (map (\<lambda>h. fmul h (Fin beta)) history)
              (map (fmul (Fin (1 - beta))) (map fsquare grad)) of Inl e \<Rightarrow> Inl e
       | Inr history \<Rightarrow>
       (case getattr self ''_jitter'' of Inl e \<Rightarrow> Inl e
        | Inr jitter \<Rightarrow>
        (case broadcast fdiv grad (map fsqrt (map (fadd (Fin jitter)) history)) of Inl e \<Rightarrow> Inl e
         | Inr descent_dir \<Rightarrow> Inr (descent_dir, history)))))"

definition AdaGrad_descent_direction :: "pyobj \<Rightarrow> vec \<Rightarrow> vec option \<Rightarrow> pyerr + vec \<times> vec" where
  "AdaGrad_descent_direction self grad history =
     (let history = (case history of None \<Rightarrow> map fsquare grad | Some h \<Rightarrow> h) in
      case broadcast fadd history (map fsquare grad) of Inl e \<Rightarrow> Inl e
      | Inr history \<Rightarrow>
      (case getattr self ''_jitter'' of Inl e \<Rightarrow> Inl e
       | Inr jitter \<Rightarrow>
       (case broadcast fdiv grad (map fsqrt (map (fadd (Fin jitter)) history)) of Inl e \<Rightarrow> Inl e
        | Inr descent_dir \<Rightarrow> Inr (descent_dir, history))))"

text \<open>
  The call \<open>self.descent_direction(grad, history)\<close> on an optimizer object. The abstract
  method of \<open>StochasticGradientOptimizer\<close> returns \<open>None\<close>, which the callers cannot
  unpack into a pair (\<open>TypeError\<close>); \<open>Optimizer\<close> and \<open>SASA\<close> have no such method.
\<close>

definition descent_direction :: "pyobj \<Rightarrow> vec \<Rightarrow> vec option \<Rightarrow> pyerr + vec \<times> vec" where
  "descent_direction self grad history =
     (case klass self of
        RMSProp \<Rightarrow> RMSProp_descent_direction self grad history
      | AdaGrad \<Rightarrow> AdaGrad_descent_direction self grad history
      | StochasticGradientOptimizer \<Rightarrow> Inl TypeError
      | Optimizer \<Rightarrow> Inl AttributeError
      | SASA \<Rightarrow> Inl AttributeError)"

section \<open>The descent directions of the specification\<close>

text \<open>
  The formulas of the specification, element by element on arrays of one length:
  \<open>acc' = beta*acc + (1-beta)*grad^2\<close> for RMSProp, \<open>acc' = acc + grad^2\<close> for
  AdaGrad, \<open>direction = grad / sqrt(acc' + jitter)\<close> for both, with \<open>acc\<close> taken as
  \<open>grad^2\<close> on the first call.
\<close>

definition first_acc :: "vec \<Rightarrow> vec option \<Rightarrow> vec" where
  "first_acc grad history = (case history of None \<Rightarrow> map fsquare grad | Some acc \<Rightarrow> acc)"

definition spec_rmsprop_acc :: "real \<Rightarrow> vec \<Rightarrow> vec \<Rightarrow> vec" where
  "spec_rmsprop_acc beta acc grad =
     map2 (\<lambda>a g. fadd (fmul (Fin beta) a) (fmul (Fin (1 - beta)) (fsquare g))) acc grad"

definition spec_adagrad_acc :: "vec \<Rightarrow> vec \<Rightarrow> vec" where
  "spec_adagrad_acc acc grad = map2 (\<lambda>a g. fadd a (fsquare g)) acc grad"

definition spec_direction :: "real \<Rightarrow> vec \<Rightarrow> vec \<Rightarrow> vec" where
  "spec_direction jitter grad acc = map2 (\<lambda>g a. fdiv g (fsqrt (fadd a (Fin jitter)))) grad acc"

text \<open>
  A sequence of calls of \<open>descent_direction\<close>, one per gradient, each call given the
  accumulator that the call before returned, as both loops of the module do. The result
  lists the pairs \<open>(descent_dir, history)\<close> that the calls return.
\<close>

fun run_directions :: "pyobj \<Rightarrow> vec list \<Rightarrow> vec option \<Rightarrow> pyerr + (vec \<times> vec) list" where
  "run_directions self [] history = Inr []"
| "run_directions self (grad # grads) history =
     (case descent_direction self grad history of Inl e \<Rightarrow> Inl e
      | Inr (descent_dir, history') \<Rightarrow>
        (case run_directions self grads (Some history') of Inl e \<Rightarrow> Inl e
         | Inr rest \<Rightarrow> Inr ((descent_dir, history') # rest)))"

definition zeros :: "nat \<Rightarrow> vec" where
  "zeros d = replicate d (Fin 0)"

text \<open>Each array of the list is element-wise at most the next one.\<close>

fun nondecreasing :: "vec list \<Rightarrow> bool" where
  "nondecreasing (a # b # rest) = (list_all2 fle a b \<and> nondecreasing (b # rest))"
| "nondecreasing [a] = True"
| "nondecreasing [] = True"

text \<open>An array of length \<open>d\<close> without \<open>inf\<close> and \<open>nan\<close>.\<close>

definition finite_vec :: "nat \<Rightarrow> vec \<Rightarrow> bool" where
  "finite_vec d v = (length v = d \<and> list_all is_finite v)"

section \<open>The optimization loop\<close>

text \<open>
  The objective maps the parameter array to the pair of its value and its gradient; it
  may raise. It is taken as a function of the contents of the array.

  The loop updates the parameter array in place (\<open>variational_param -= ...\<close>) and
  appends the array object itself to the history, so the arrays live in a heap and the
  history is a list of references into it.
\<close>

type_synonym objective = "vec \<Rightarrow> pyerr + npfloat \<times> vec"

type_synonym ref = nat

type_synonym heap = "vec list"

definition alloc :: "heap \<Rightarrow> vec \<Rightarrow> ref \<times> heap" where
  "alloc h v = (length h, h @ [v])"

text \<open>The local variables that both loops of the module share.\<close>

record loop_state =
  heap :: heap
  variational_param :: ref
  history :: "vec option"
  value_history :: "npfloat list"
  variational_param_history :: "ref list"

record opt_state = loop_state +
  descent_dir_history :: "vec list"

text \<open>
  The returned dictionary. \<open>variational_param_history\<close> is given by the contents of
  its entries at the return.
\<close>

record result =
  smoothed_opt_param :: vec
  variational_param_history_arr :: "vec list"
  value_history_arr :: "npfloat list"

text \<open>The body of the loop of \<open>StochasticGradientOptimizer.optimize\<close>.\<close>

definition optimize_body :: "pyobj \<Rightarrow> objective \<Rightarrow> opt_state \<Rightarrow> pyerr + opt_state" where
  "optimize_body self objective s =
     (case objective (heap s ! variational_param s) of Inl e \<Rightarrow> Inl e
      | Inr (object_val, object_grad) \<Rightarrow>
      (case descent_direction self object_grad (history s) of Inl e \<Rightarrow> Inl e
       | Inr (descent_dir, history') \<Rightarrow>
       (case getattr self ''_learning_rate'' of Inl e \<Rightarrow> Inl e
        | Inr learning_rate \<Rightarrow>
        (case isub (heap s ! variational_param s) (map (fmul (Fin learning_rate)) descent_dir) of
           Inl e \<Rightarrow> Inl e
         | Inr p \<Rightarrow>
           Inr (s\<lparr>heap := (heap s)[variational_param s := p],
                  history := Some history',
                  value_history := value_history s @ [object_val],
                  variational_param_history :=
                    variational_param_history s @ [variational_param s],
                  descent_dir_history := descent_dir_history s @ [descent_dir]\<rparr>)))))"

text \<open>\<open>for t in tqdm.trange(n_iters)\<close>: the body, \<open>k\<close> times.\<close>

fun optimize_loop :: "pyobj \<Rightarrow> objective \<Rightarrow> nat \<Rightarrow> opt_state \<Rightarrow> pyerr + opt_state" where
  "optimize_loop self objective 0 s = Inr s"
| "optimize_loop self objective (Suc k) s =
     (case optimize_body self objective s of Inl e \<Rightarrow> Inl e
      | Inr s' \<Rightarrow> optimize_loop self objective k s')"

definition optimize_init :: "vec \<Rightarrow> opt_state" where
  "optimize_init init_param =
     (case alloc [] init_param of (r, h) \<Rightarrow>
        \<lparr>heap = h, variational_param = r, history = None, value_history = [],
         variational_param_history = [], descent_dir_history = []\<rparr>)"

text \<open>
  The end of \<open>optimize\<close>: \<open>np.array\<close> reads the arrays of the history, the slice
  \<open>[-smoothing_window:, :]\<close> needs two dimensions (an empty history gives an array of
  one), and the mean is taken over the rows of the slice.
\<close>

definition optimize_finish :: "int \<Rightarrow> opt_state \<Rightarrow> pyerr + result" where
  "optimize_finish smoothing_window s =
     (let variational_param_history = map (\<lambda>r. heap s ! r) (variational_param_history s) in
      if variational_param_history = [] then Inl IndexError
      else
        let variational_param_latter = slice_from (- smoothing_window) variational_param_history
        in Inr \<lparr>smoothed_opt_param =
                  mean_axis0 (length (hd variational_param_history)) variational_param_latter,
                variational_param_history_arr = variational_param_history,
                value_history_arr = value_history s\<rparr>)"

definition optimize :: "pyobj \<Rightarrow> int \<Rightarrow> objective \<Rightarrow> vec \<Rightarrow> real \<Rightarrow> pyerr + result" where
  "optimize self n_iters objective init_param smoothed_prop =
     (let smoothing_window = py_int (real_of_int n_iters * smoothed_prop) in
      case optimize_loop self objective (nat n_iters) (optimize_init init_param) of
        Inl e \<Rightarrow> Inl e
      | Inr s \<Rightarrow> optimize_finish smoothing_window s)"

text \<open>
  The contents of the parameter array at the end of iteration \<open>i\<close> (counted from 0) of
  a run of \<open>optimize\<close>: the loop stopped after \<open>i + 1\<close> iterations.
\<close>

definition param_after :: "pyobj \<Rightarrow> objective \<Rightarrow> vec \<Rightarrow> nat \<Rightarrow> pyerr + vec" where
  "param_after self objective init_param i =
     (case optimize_loop self objective (Suc i) (optimize_init init_param) of
        Inl e \<Rightarrow> Inl e
      | Inr s \<Rightarrow> Inr (heap s ! variational_param s))"

section \<open>The adaptive controller\<close>

text \<open>
  The attributes of a \<open>SASA\<close> object, all set by \<open>__init__\<close>; \<open>u_x\<close> stands for the
  attribute \<open>_x\<close>.
\<close>

record sasa_obj =
  u_sgo :: pyobj
  u_theta :: real
  u_rho :: real
  u_W0 :: int
  u_t_check :: int
  u_delta :: real
  u_eps :: real

text \<open>\<open>SASA.__init__\<close>\<close>

definition SASA_init ::
  "pyvalue \<Rightarrow> real \<Rightarrow> real \<Rightarrow> int \<Rightarrow> int \<Rightarrow> real \<Rightarrow> real \<Rightarrow> pyerr + sasa_obj" where
  "SASA_init sgo theta rho W0 t_check delta eps =
     (if \<not> isinstance sgo StochasticGradientOptimizer then Inl ValueError
      else case sgo of
          PyObj obj \<Rightarrow>
            Inr \<lparr>u_sgo = obj, u_theta = theta, u_rho = rho, u_W0 = W0, u_t_check = t_check,
                 u_delta = delta, u_eps = eps\<rparr>
        | _ \<Rightarrow> Inl ValueError)"

text \<open>The expressions \<open>RMSProp(...)\<close>, \<open>AdaGrad(...)\<close> and \<open>SASA(...)\<close>.\<close>

definition RMSProp_new :: "real \<Rightarrow> real \<Rightarrow> real \<Rightarrow> pyerr + pyobj" where
  "RMSProp_new learning_rate beta jitter =
     instantiate RMSProp (Inr (RMSProp_init learning_rate beta jitter))"

definition AdaGrad_new :: "real \<Rightarrow> real \<Rightarrow> pyerr + pyobj" where
  "AdaGrad_new learning_rate jitter =
     instantiate AdaGrad (Inr (AdaGrad_init learning_rate jitter))"

definition SASA_new ::
  "pyvalue \<Rightarrow> real \<Rightarrow> real \<Rightarrow> int \<Rightarrow> int \<Rightarrow> real \<Rightarrow> real \<Rightarrow> pyerr + sasa_obj" where
  "SASA_new sgo theta rho W0 t_check delta eps =
     instantiate SASA (SASA_init sgo theta rho W0 t_check delta eps)"

text \<open>
  \<open>scipy.stats.t.ppf(q, df)\<close>, the quantile function of Student's t distribution, and
  \<open>MFGaussian._kl\<close> of \<open>viabel.approximations\<close> are not part of the module: they are
  parameters of the model.
\<close>

type_synonym ppf = "real \<Rightarrow> int \<Rightarrow> npfloat"

type_synonym kl = "vec \<Rightarrow> vec \<Rightarrow> npfloat"

text \<open>\<open>np.floor(np.sqrt(W)).astype(int)\<close>, for \<open>W\<close> that is not negative.\<close>

definition batch_size :: "int \<Rightarrow> int" where
  "batch_size W = \<lfloor>sqrt (real_of_int W)\<rfloor>"

text \<open>
  The statistic of \<open>SASA.convergence_check\<close>, as the source computes it:
  \<open>sigma_n\<close> of line 171 from the batch means and the grand mean.
\<close>

definition sigma_n :: "int \<Rightarrow> int \<Rightarrow> vec \<Rightarrow> npfloat \<Rightarrow> npfloat" where
  "sigma_n m b Delta_batch_means mu_n =
     fsqrt (fmul (fdiv (Fin (real_of_int m)) (Fin (real_of_int (b - 1))))
              (fsum (map (\<lambda>x. fsquare (fsub x mu_n)) Delta_batch_means)))"

text \<open>
  \<open>SASA.convergence_check(self, W, Delta_history)\<close>. For a negative \<open>W\<close> the square
  root is \<open>nan\<close>, whose cast to an integer numpy leaves undefined: the model stops there.
\<close>

definition convergence_check :: "sasa_obj \<Rightarrow> ppf \<Rightarrow> int \<Rightarrow> npfloat list \<Rightarrow> pyerr + bool" where
  "convergence_check self ppf W Delta_history =
     (if W < 0 then Inl UndefinedCast
      else
        let m = batch_size W; b = m in
        case reshape (slice_from (- (m * b)) Delta_history) m b of Inl e \<Rightarrow> Inl e
        | Inr Delta_reshaped \<Rightarrow>
          let mu_n = fmean (concat Delta_reshaped);
              Delta_batch_means = map fmean Delta_reshaped;
              sigma = sigma_n m b Delta_batch_means mu_n;
              sd_error = fmul (ppf (1 - u_delta self / 2) (b - 1))
                           (fdiv sigma (fsqrt (Fin (real_of_int (m * b)))));
              lower = fsub mu_n sd_error;
              upper = fadd mu_n sd_error
          in Inr (fless lower (Fin 0) \<and> fless (Fin 0) upper))"

text \<open>
  The local variables of \<open>SASA.convergence_test\<close>. \<open>SKL\<close> is \<open>None\<close> as long as no
  assignment to it has run: reading it then raises \<open>UnboundLocalError\<close>.
\<close>

record sasa_state = loop_state +
  t0 :: int
  learning_rate :: real
  variational_param_mean :: vec
  Delta_history :: "npfloat list"
  SKL :: "npfloat option"

text \<open>Line 221: the window size \<open>W\<close> at iteration \<open>t\<close>, for the anchor \<open>t0\<close>.\<close>

definition window :: "sasa_obj \<Rightarrow> int \<Rightarrow> int \<Rightarrow> int" where
  "window self t anchor =
     max (min (t - anchor) (u_W0 self)) \<lceil>u_theta self * real_of_int (t - anchor)\<rceil>"

text \<open>
  Lines 224 to 230, run when the check has returned \<open>True\<close>: the reduction of the
  learning rate, the new reference mean, the new anchor and \<open>SKL\<close>.
\<close>

definition reduce_rate :: "sasa_obj \<Rightarrow> kl \<Rightarrow> int \<Rightarrow> int \<Rightarrow> sasa_state \<Rightarrow> sasa_state" where
  "reduce_rate self kl W t s =
     (let m = batch_size W; b = m;
          variational_param_mean_prev = variational_param_mean s;
          variational_param_mean' =
            mean_axis0 (length (heap s ! variational_param s))
              (map (\<lambda>r. heap s ! r) (slice_from (- (m * b)) (variational_param_history s)))
      in s\<lparr>learning_rate := u_rho self * learning_rate s,
           variational_param_mean := variational_param_mean',
           t0 := t,
           SKL := Some (fadd (kl variational_param_mean_prev variational_param_mean')
                          (kl variational_param_mean' variational_param_mean_prev))\<rparr>)"

text \<open>Lines 221 to 230: the window, the gate and the check.\<close>

definition check_and_reduce ::
  "sasa_obj \<Rightarrow> kl \<Rightarrow> ppf \<Rightarrow> int \<Rightarrow> sasa_state \<Rightarrow> pyerr + sasa_state" where
  "check_and_reduce self kl ppf t s =
     (let W = window self t (t0 s) in
      if W \<ge> u_W0 self then
        if u_t_check self = 0 then Inl ZeroDivisionError
        else if t mod u_t_check self = 0 then
          (case convergence_check self ppf W (Delta_history s) of Inl e \<Rightarrow> Inl e
           | Inr convg \<Rightarrow> if convg then Inr (reduce_rate self kl W t s) else Inr s)
        else Inr s
      else Inr s)"

text \<open>Lines 231 to 233: the stopping rule; \<open>True\<close> is the \<open>break\<close>.\<close>

definition stopping_rule :: "sasa_obj \<Rightarrow> sasa_state \<Rightarrow> pyerr + bool" where
  "stopping_rule self s =
     (case SKL s of None \<Rightarrow> Inl UnboundLocalError
      | Some skl \<Rightarrow> Inr (fless (fdiv skl (Fin (u_rho self))) (Fin (u_eps self))))"

text \<open>Lines 214 to 220: the step of the parameter and \<open>Delta\<close>.\<close>

definition descent_step :: "sasa_obj \<Rightarrow> objective \<Rightarrow> sasa_state \<Rightarrow> pyerr + sasa_state" where
  "descent_step self objective s =
     (case objective (heap s ! variational_param s) of Inl e \<Rightarrow> Inl e
      | Inr (object_val, object_grad) \<Rightarrow>
      (case descent_direction (u_sgo self) object_grad (history s) of Inl e \<Rightarrow> Inl e
       | Inr (descent_dir, history') \<Rightarrow>
       (case isub (heap s ! variational_param s)
               (map (fmul (Fin (learning_rate s))) descent_dir) of Inl e \<Rightarrow> Inl e
        | Inr p \<Rightarrow>
        (case dot p descent_dir of Inl e \<Rightarrow> Inl e
         | Inr d \<Rightarrow>
           let Delta = fsub d (fmul (Fin (0.5 * learning_rate s))
                                 (fsum (map fsquare descent_dir)))
           in Inr (s\<lparr>heap := (heap s)[variational_param s := p],
                     history := Some history',
                     value_history := value_history s @ [object_val],
                     variational_param_history :=
                       variational_param_history s @ [variational_param s],
                     Delta_history := Delta_history s @ [Delta]\<rparr>)))))"

text \<open>The body of the loop at iteration \<open>t\<close>; the flag tells whether it ended in \<open>break\<close>.\<close>

definition sasa_body ::
  "sasa_obj \<Rightarrow> kl \<Rightarrow> ppf \<Rightarrow> objective \<Rightarrow> int \<Rightarrow> sasa_state \<Rightarrow> pyerr + bool \<times> sasa_state" where
  "sasa_body self kl ppf objective t s =
     (case descent_step self objective s of Inl e \<Rightarrow> Inl e
      | Inr s1 \<Rightarrow>
      (case check_and_reduce self kl ppf t s1 of Inl e \<Rightarrow> Inl e
       | Inr s2 \<Rightarrow>
       (case stopping_rule self s2 of Inl e \<Rightarrow> Inl e
        | Inr stop \<Rightarrow> Inr (stop, s2))))"

text \<open>\<open>for t in tqdm.trange(n_iters)\<close> from iteration \<open>t\<close> on, with \<open>k\<close> iterations left.\<close>

fun sasa_loop ::
  "sasa_obj \<Rightarrow> kl \<Rightarrow> ppf \<Rightarrow> objective \<Rightarrow> nat \<Rightarrow> int \<Rightarrow> sasa_state \<Rightarrow> pyerr + sasa_state" where
  "sasa_loop self kl ppf objective 0 t s = Inr s"
| "sasa_loop self kl ppf objective (Suc k) t s =
     (case sasa_body self kl ppf objective t s of Inl e \<Rightarrow> Inl e
      | Inr (stop, s') \<Rightarrow>
          if stop then Inr s' else sasa_loop self kl ppf objective k (t + 1) s')"

definition sasa_init_state :: "real \<Rightarrow> vec \<Rightarrow> sasa_state" where
  "sasa_init_state rate init_param =
     (case alloc [] init_param of (r, h) \<Rightarrow>
        \<lparr>heap = h, variational_param = r, history = None, value_history = [],
         variational_param_history = [], t0 = 0, learning_rate = rate,
         variational_param_mean = init_param, Delta_history = [], SKL = None\<rparr>)"

definition sasa_result :: "sasa_state \<Rightarrow> result" where
  "sasa_result s =
     \<lparr>smoothed_opt_param = variational_param_mean s,
      variational_param_history_arr = map (\<lambda>r. heap s ! r) (variational_param_history s),
      value_history_arr = value_history s\<rparr>"

text \<open>\<open>SASA.convergence_test(self, n_iters, objective, init_param)\<close>\<close>

definition convergence_test ::
  "sasa_obj \<Rightarrow> kl \<Rightarrow> ppf \<Rightarrow> int \<Rightarrow> objective \<Rightarrow> vec \<Rightarrow> pyerr + result" where
  "convergence_test self kl ppf n_iters objective init_param =
     (case getattr (u_sgo self) ''learning_rate'' of Inl e \<Rightarrow> Inl e
      | Inr rate \<Rightarrow>
      (case sasa_loop self kl ppf objective (nat n_iters) 0
              (sasa_init_state rate init_param) of Inl e \<Rightarrow> Inl e
       | Inr s \<Rightarrow> Inr (sasa_result s)))"

section \<open>The iterate average of the specification\<close>

text \<open>
  The parameter arrays at the ends of the first \<open>n\<close> iterations of a run of
  \<open>optimize\<close>, and the average that the specification asks for: the arithmetic mean of
  the last \<open>floor(n_iters * smoothed_prop)\<close> of them.
\<close>

definition param_snapshots :: "pyobj \<Rightarrow> objective \<Rightarrow> vec \<Rightarrow> nat \<Rightarrow> vec list" where
  "param_snapshots self objective init_param n =
     map (\<lambda>i. case param_after self objective init_param i of Inl e \<Rightarrow> [] | Inr v \<Rightarrow> v) [0..<n]"

definition spec_iterate_average :: "int \<Rightarrow> real \<Rightarrow> vec list \<Rightarrow> vec" where
  "spec_iterate_average n_iters smoothed_prop snapshots =
     (let k = nat \<lfloor>real_of_int n_iters * smoothed_prop\<rfloor>
      in mean_axis0 (length (hd snapshots)) (drop (length snapshots - k) snapshots))"

section \<open>The stationarity test of the specification\<close>

text \<open>
  The test in the words of the specification, on real numbers, for \<open>m = b\<close>: the last
  \<open>b*b\<close> values of \<open>Delta\<close>, their \<open>b\<close> contiguous batches of size \<open>b\<close>, the grand
  mean \<open>mu_n\<close>, the variance \<open>sigma_n^2 = (m/(b-1)) * sum((batch_mean - mu_n)^2)\<close>
  of the batch means, and the interval \<open>mu_n +/- tq * sigma_n / sqrt(m*b)\<close> for the
  quantile \<open>tq\<close> of Student's t distribution: the test holds when 0 lies strictly
  inside the interval.
\<close>

definition arith_mean :: "real list \<Rightarrow> real" where
  "arith_mean xs = sum_list xs / real (length xs)"

definition spec_window :: "nat \<Rightarrow> real list \<Rightarrow> real list" where
  "spec_window b ds = drop (length ds - b * b) ds"

definition spec_batches :: "nat \<Rightarrow> real list \<Rightarrow> real list list" where
  "spec_batches b ds = map (\<lambda>i. take b (drop (i * b) (spec_window b ds))) [0..<b]"

definition spec_mu :: "nat \<Rightarrow> real list \<Rightarrow> real" where
  "spec_mu b ds = arith_mean (spec_window b ds)"

definition spec_sigma2 :: "nat \<Rightarrow> real list \<Rightarrow> real" where
  "spec_sigma2 b ds =
     (real b / (real b - 1)) *
     sum_list (map (\<lambda>x. (x - spec_mu b ds)\<^sup>2) (map arith_mean (spec_batches b ds)))"

definition spec_stationary :: "real \<Rightarrow> nat \<Rightarrow> real list \<Rightarrow> bool" where
  "spec_stationary tq b ds =
     (let half = tq * sqrt (spec_sigma2 b ds) / sqrt (real (b * b))
      in spec_mu b ds - half < 0 \<and> 0 < spec_mu b ds + half)"

section \<open>Invariants of the loop\<close>

text \<open>
  A run of \<open>optimize\<close> owns one array: the heap holds it at reference 0, and every
  entry of the history is that reference.
\<close>

definition one_array :: "opt_state \<Rightarrow> bool" where
  "one_array s =
     (variational_param s = 0 \<and> length (heap s) = 1 \<and>
      variational_param_history s = replicate (length (variational_param_history s)) 0)"

section \<open>Example inputs\<close>

text \<open>
  An objective with the constant value 0 and the constant gradient \<open>[1.0]\<close>, the optimizer
  \<open>RMSProp(1.0, beta=0.5, jitter=3.0)\<close>, whose direction for that gradient is \<open>[0.5]\<close>
  at every call, the same optimizer with an attribute \<open>learning_rate\<close> set on the
  instance, and a controller around the latter.
\<close>

definition ex_objective :: objective where
  "ex_objective p = Inr (Fin 0, [Fin 1])"

definition ex_rmsprop :: pyobj where
  "ex_rmsprop = RMSProp_init 1 (1/2) 3"

definition ex_rmsprop_public :: pyobj where
  "ex_rmsprop_public = ex_rmsprop\<lparr>attrs := (attrs ex_rmsprop)(''learning_rate'' \<mapsto> 1)\<rparr>"

definition ex_sasa :: sasa_obj where
  "ex_sasa = \<lparr>u_sgo = ex_rmsprop_public, u_theta = 1, u_rho = 1/2, u_W0 = 1000,
              u_t_check = 100, u_delta = 1/20, u_eps = 1/1000\<rparr>"

text \<open>
  A controller with a small window (\<open>W0 = 4\<close>, \<open>t_check = 2\<close>, \<open>theta = 1\<close>,
  \<open>rho = 0.5\<close>), local variables of its loop before iteration 4, picked so that the
  check of that iteration holds, and the local variables after that iteration.
\<close>

definition ex_sasa_small :: sasa_obj where
  "ex_sasa_small = \<lparr>u_sgo = ex_rmsprop_public, u_theta = 1, u_rho = 1/2, u_W0 = 4,
                    u_t_check = 2, u_delta = 1/20, u_eps = 1/1000\<rparr>"

definition ex_state :: sasa_state where
  "ex_state = \<lparr>heap = [[Fin (3/4)]], variational_param = 0, history = Some [Fin 1],
               value_history = [Fin 0, Fin 0, Fin 0, Fin 0],
               variational_param_history = [0, 0, 0, 0], t0 = 0, learning_rate = 1,
               variational_param_mean = [Fin 0],
               Delta_history = [Fin 0, Fin 1, Fin 1, Fin (- 2)], SKL = None\<rparr>"

definition ex_state' :: sasa_state where
  "ex_state' = \<lparr>heap = [[Fin (1/4)]], variational_param = 0, history = Some [Fin 1],
               value_history = [Fin 0, Fin 0, Fin 0, Fin 0, Fin 0],
               variational_param_history = [0, 0, 0, 0, 0], t0 = 4, learning_rate = 1/2,
               variational_param_mean = [Fin (1/4)],
               Delta_history = [Fin 0, Fin 1, Fin 1, Fin (- 2), Fin 0], SKL = Some (Fin 0)\<rparr>"

section \<open>Arithmetic of the numeric model\<close>

lemma fadd_comm: "fadd x y = fadd y x"
  by (cases x; cases y) simp_all

lemma fmul_comm: "fmul x y = fmul y x"
  by (cases x; cases y) simp_all

section \<open>Instantiation\<close>

lemma abstractmethods_SASA: "abstractmethods SASA = [''optimize'']"
  by (simp add: abstractmethods_def)

lemma abstractmethods_RMSProp: "abstractmethods RMSProp = []"
  by (simp add: abstractmethods_def)

lemma abstractmethods_AdaGrad: "abstractmethods AdaGrad = []"
  by (simp add: abstractmethods_def)

lemma RMSProp_new_ok: "RMSProp_new lr beta jitter = Inr (RMSProp_init lr beta jitter)"
  by (simp add: RMSProp_new_def instantiate_def abstractmethods_RMSProp)

lemma AdaGrad_new_ok: "AdaGrad_new lr jitter = Inr (AdaGrad_init lr jitter)"
  by (simp add: AdaGrad_new_def instantiate_def abstractmethods_AdaGrad)

text \<open>
  \<open>SASA.__init__\<close> by itself validates its argument as intended: it raises
  \<open>ValueError\<close> exactly for a value that is not a \<open>StochasticGradientOptimizer\<close>.
\<close>

lemma SASA_init_ValueError_iff:
  "(SASA_init sgo theta rho W0 t_check delta eps = Inl ValueError) =
   (\<not> isinstance sgo StochasticGradientOptimizer)"
  by (cases sgo) (simp_all add: SASA_init_def isinstance_def)

lemma isinstance_RMSProp:
  "isinstance (PyObj (RMSProp_init lr beta jitter)) StochasticGradientOptimizer"
  by (simp add: isinstance_def issubclass_def RMSProp_init_def
      StochasticGradientOptimizer_init_def)

text \<open>
  Claim C9. Constructing a \<open>SASA\<close> controller should raise \<open>ValueError\<close> exactly when
  \<open>sgo\<close> is not a \<open>StochasticGradientOptimizer\<close>, and succeed for every such
  optimizer. In the source, \<open>SASA\<close> derives from the abstract class \<open>Optimizer\<close> and
  never defines its abstract method \<open>optimize\<close>, so the expression \<open>SASA(...)\<close> raises
  \<open>TypeError\<close> for every argument, before \<open>__init__\<close> and its validation run: also for
  \<open>RMSProp(0.01)\<close>, where the claim promises a controller.
\<close>

theorem SASA_new_TypeError:
  "SASA_new (PyObj (RMSProp_init (1/100) (9/10) (1/100000000))) 2 (1/2) 1000 100 (1/20) (1/1000)
     = Inl TypeError \<and>
   SASA_new sgo theta rho W0 t_check delta eps = Inl TypeError"
  by (simp add: SASA_new_def instantiate_def abstractmethods_SASA)

section \<open>The attribute \<open>learning_rate\<close>\<close>

lemma getattr_RMSProp_init:
  "getattr (RMSProp_init lr beta jitter) ''_learning_rate'' = Inr lr"
  "getattr (RMSProp_init lr beta jitter) ''_beta'' = Inr beta"
  "getattr (RMSProp_init lr beta jitter) ''_jitter'' = Inr jitter"
  "getattr (RMSProp_init lr beta jitter) ''learning_rate'' = Inl AttributeError"
  by (simp_all add: getattr_def RMSProp_init_def StochasticGradientOptimizer_init_def)

lemma getattr_AdaGrad_init:
  "getattr (AdaGrad_init lr jitter) ''_learning_rate'' = Inr lr"
  "getattr (AdaGrad_init lr jitter) ''_jitter'' = Inr jitter"
  "getattr (AdaGrad_init lr jitter) ''learning_rate'' = Inl AttributeError"
  by (simp_all add: getattr_def AdaGrad_init_def StochasticGradientOptimizer_init_def)

text \<open>
  Claim C2. For a controller around an \<open>RMSProp\<close> or an \<open>AdaGrad\<close> optimizer, as their
  constructors build them, \<open>convergence_test\<close> raises \<open>AttributeError\<close> for every
  \<open>n_iters\<close>, objective and \<open>init_param\<close>: line 207 reads the attribute
  \<open>learning_rate\<close>, and the constructors store \<open>_learning_rate\<close> only. The loop is not
  reached: the result is the same for every objective, also for one that would raise
  at its first call.
\<close>

theorem convergence_test_AttributeError:
  "convergence_test (self\<lparr>u_sgo := RMSProp_init lr beta jitter\<rparr>) kl ppf n_iters objective
     init_param = Inl AttributeError \<and>
   convergence_test (self\<lparr>u_sgo := AdaGrad_init lr jitter\<rparr>) kl ppf n_iters objective
     init_param = Inl AttributeError \<and>
   attrs (RMSProp_init lr beta jitter) ''learning_rate'' = None \<and>
   attrs (RMSProp_init lr beta jitter) ''_learning_rate'' = Some lr \<and>
   attrs (AdaGrad_init lr jitter) ''learning_rate'' = None \<and>
   attrs (AdaGrad_init lr jitter) ''_learning_rate'' = Some lr"
proof -
  have "convergence_test (self\<lparr>u_sgo := RMSProp_init lr beta jitter\<rparr>) kl ppf n_iters objective
     init_param = Inl AttributeError"
    by (simp add: convergence_test_def getattr_RMSProp_init)
  moreover have "convergence_test (self\<lparr>u_sgo := AdaGrad_init lr jitter\<rparr>) kl ppf n_iters
     objective init_param = Inl AttributeError"
    by (simp add: convergence_test_def getattr_AdaGrad_init)
  moreover have "attrs (RMSProp_init lr beta jitter) ''learning_rate'' = None"
    "attrs (RMSProp_init lr beta jitter) ''_learning_rate'' = Some lr"
    by (simp_all add: RMSProp_init_def StochasticGradientOptimizer_init_def)
  moreover have "attrs (AdaGrad_init lr jitter) ''learning_rate'' = None"
    "attrs (AdaGrad_init lr jitter) ''_learning_rate'' = Some lr"
    by (simp_all add: AdaGrad_init_def StochasticGradientOptimizer_init_def)
  ultimately show ?thesis by simp
qed

section \<open>The examples, evaluated\<close>

lemma ex_direction:
  "descent_direction ex_rmsprop [Fin 1] None = Inr ([Fin (1/2)], [Fin 1])"
  "descent_direction ex_rmsprop [Fin 1] (Some [Fin 1]) = Inr ([Fin (1/2)], [Fin 1])"
  by (simp_all add: descent_direction_def ex_rmsprop_def RMSProp_init_def
      StochasticGradientOptimizer_init_def RMSProp_descent_direction_def getattr_def
      broadcast_def fsquare_def)

lemma ex_direction_public:
  "descent_direction ex_rmsprop_public [Fin 1] None = Inr ([Fin (1/2)], [Fin 1])"
  "descent_direction ex_rmsprop_public [Fin 1] (Some [Fin 1]) = Inr ([Fin (1/2)], [Fin 1])"
  by (simp_all add: descent_direction_def ex_rmsprop_public_def ex_rmsprop_def RMSProp_init_def
      StochasticGradientOptimizer_init_def RMSProp_descent_direction_def getattr_def
      broadcast_def fsquare_def)

lemma ex_learning_rate: "getattr ex_rmsprop ''_learning_rate'' = Inr 1"
  by (simp add: ex_rmsprop_def getattr_RMSProp_init)

lemma ex_learning_rate_public: "getattr ex_rmsprop_public ''learning_rate'' = Inr 1"
  by (simp add: ex_rmsprop_public_def getattr_def)

lemmas opt_eval = optimize_def py_int_def optimize_init_def alloc_def optimize_body_def
  ex_objective_def ex_direction ex_learning_rate isub_def fsub_def optimize_finish_def
  slice_from_def mean_axis0_def fmean_def fsum_def

lemma ex_optimize_2:
  "optimize ex_rmsprop 2 ex_objective [Fin 0] 1 =
     Inr \<lparr>smoothed_opt_param = [Fin (- 1)],
          variational_param_history_arr = [[Fin (- 1)], [Fin (- 1)]],
          value_history_arr = [Fin 0, Fin 0]\<rparr>"
  by (simp add: opt_eval numeral_2_eq_2)

lemma ex_param_after:
  "param_after ex_rmsprop ex_objective [Fin 0] 0 = Inr [Fin (- (1/2))]"
  "param_after ex_rmsprop ex_objective [Fin 0] (Suc 0) = Inr [Fin (- 1)]"
  by (simp_all add: param_after_def opt_eval)

lemma ex_param_snapshots:
  "param_snapshots ex_rmsprop ex_objective [Fin 0] 2 = [[Fin (- (1/2))], [Fin (- 1)]]"
  by (simp add: param_snapshots_def numeral_2_eq_2 ex_param_after)

section \<open>The first iteration of the controller\<close>

lemma descent_step_fields:
  assumes "descent_step self objective s = Inr s1"
  shows "t0 s1 = t0 s" "SKL s1 = SKL s" "learning_rate s1 = learning_rate s"
    "variational_param_mean s1 = variational_param_mean s"
    "Delta_history s1 \<noteq> []"
    "length (Delta_history s1) = Suc (length (Delta_history s))"
  using assms
  by (auto simp: descent_step_def Let_def split: sum.splits prod.splits)

lemma window_at_anchor: "window self t t = max (min 0 (u_W0 self)) 0"
  by (simp add: window_def)

lemma batch_size_0: "batch_size 0 = 0"
  by (simp add: batch_size_def)

lemma convergence_check_0:
  "Ds \<noteq> [] \<Longrightarrow> convergence_check self ppf 0 Ds = Inl ValueError"
  by (simp add: convergence_check_def batch_size_0 slice_from_def reshape_def)

lemma sasa_body_first_iteration:
  assumes "SKL s = None" "t0 s = t"
  shows "\<exists>e. sasa_body self kl ppf objective t s = Inl e"
proof (cases "descent_step self objective s")
  case (Inl e)
  then show ?thesis by (simp add: sasa_body_def)
next
  case (Inr s1)
  note f = descent_step_fields[OF Inr]
  have W: "window self t (t0 s1) = max (min 0 (u_W0 self)) 0"
    using f(1) assms(2) by (simp add: window_at_anchor)
  show ?thesis
  proof (cases "0 < u_W0 self")
    case True
    then have "check_and_reduce self kl ppf t s1 = Inr s1"
      by (simp add: check_and_reduce_def W)
    then show ?thesis using Inr f(2) assms(1)
      by (simp add: sasa_body_def stopping_rule_def)
  next
    case False
    then have W0: "window self t (t0 s1) = 0" "u_W0 self \<le> 0" using W by auto
    have "(\<exists>e. check_and_reduce self kl ppf t s1 = Inl e) \<or>
          check_and_reduce self kl ppf t s1 = Inr s1"
      using W0 f(5) by (simp add: check_and_reduce_def convergence_check_0)
    then show ?thesis using Inr f(2) assms(1)
      by (auto simp: sasa_body_def stopping_rule_def)
  qed
qed

lemma convergence_test_never_completes:
  assumes "0 < n_iters"
  shows "\<exists>e. convergence_test self kl ppf n_iters objective init_param = Inl e"
proof (cases "getattr (u_sgo self) ''learning_rate''")
  case (Inl e)
  then show ?thesis by (simp add: convergence_test_def)
next
  case (Inr rate)
  obtain k where k: "nat n_iters = Suc k" using assms by (cases "nat n_iters") auto
  have "SKL (sasa_init_state rate init_param) = None" "t0 (sasa_init_state rate init_param) = 0"
    by (simp_all add: sasa_init_state_def alloc_def)
  from sasa_body_first_iteration[OF this]
  obtain e where "sasa_body self kl ppf objective 0 (sasa_init_state rate init_param) = Inl e"
    by blast
  then show ?thesis using Inr k by (simp add: convergence_test_def)
qed

text \<open>
  Claim C1. Before the first reduction of the learning rate the stopping rule should
  count as "not converged", and the loop should neither fail nor stop. In the source
  \<open>SKL\<close> is assigned only inside the branch of a reduction and read at line 231 in
  every iteration, so the first iteration without a reduction raises
  \<open>UnboundLocalError\<close>: here for one iteration of a controller whose optimizer has
  the attribute \<open>learning_rate\<close>. By \<open>convergence_test_never_completes\<close> no run of
  one iteration or more returns.
\<close>

theorem convergence_test_UnboundLocalError:
  "convergence_test ex_sasa kl ppf 1 ex_objective [Fin 0] = Inl UnboundLocalError"
  by (simp add: convergence_test_def ex_sasa_def ex_learning_rate_public sasa_init_state_def
      alloc_def sasa_body_def descent_step_def ex_objective_def ex_direction_public isub_def
      fsub_def dot_def fsum_def fsquare_def check_and_reduce_def window_def stopping_rule_def)

section \<open>The parameter history\<close>

lemma one_array_init: "one_array (optimize_init init_param)"
  "variational_param_history (optimize_init init_param) = []"
  by (simp_all add: one_array_def optimize_init_def alloc_def)

lemma replicate_snoc: "replicate n x @ [x] = replicate (Suc n) x"
  by (simp add: replicate_append_same)

lemma optimize_body_one_array:
  assumes "optimize_body self objective s = Inr s'" "one_array s"
  shows "one_array s'"
    "length (variational_param_history s') = Suc (length (variational_param_history s))"
proof -
  from assms(1) obtain p where
    s': "variational_param s' = variational_param s"
        "heap s' = (heap s)[variational_param s := p]"
        "variational_param_history s' = variational_param_history s @ [variational_param s]"
    by (auto simp: optimize_body_def split: sum.splits prod.splits)
  from assms(2) have h: "variational_param s = 0" "length (heap s) = 1"
    "variational_param_history s = replicate (length (variational_param_history s)) 0"
    by (simp_all add: one_array_def)
  show "length (variational_param_history s') = Suc (length (variational_param_history s))"
    by (simp add: s')
  have "variational_param_history s' = replicate (length (variational_param_history s)) 0 @ [0]"
    using s'(3) h(1) h(3) by simp
  then have "variational_param_history s' = replicate (Suc (length (variational_param_history s))) 0"
    by (simp only: replicate_snoc)
  then show "one_array s'"
    using s' h by (simp add: one_array_def)
qed

lemma optimize_loop_one_array:
  "optimize_loop self objective k s = Inr s' \<Longrightarrow> one_array s \<Longrightarrow>
   one_array s' \<and> length (variational_param_history s') = k + length (variational_param_history s)"
proof (induction k arbitrary: s)
  case 0
  then show ?case by simp
next
  case (Suc k)
  from Suc.prems(1) obtain s1 where b: "optimize_body self objective s = Inr s1"
    and l: "optimize_loop self objective k s1 = Inr s'"
    by (auto split: sum.splits)
  from optimize_body_one_array[OF b Suc.prems(2)] Suc.IH[OF l] show ?case by simp
qed

lemma foldl_fadd_replicate_Fin:
  "foldl fadd (Fin a) (replicate k (Fin b)) = Fin (a + real k * b)"
  by (induction k arbitrary: a) (simp_all add: algebra_simps)

lemma foldl_fadd_replicate_same:
  "foldl fadd PInf (replicate k PInf) = PInf"
  "foldl fadd NInf (replicate k NInf) = NInf"
  "foldl fadd NaN (replicate k x) = NaN"
  by (induction k) simp_all

lemma fsum_replicate:
  "fsum (replicate (Suc k) x) = (case x of Fin b \<Rightarrow> Fin (real (Suc k) * b) | _ \<Rightarrow> x)"
  by (cases x) (simp_all add: fsum_def foldl_fadd_replicate_Fin foldl_fadd_replicate_same
      algebra_simps)

lemma fmean_replicate: "0 < k \<Longrightarrow> fmean (replicate k x) = x"
proof -
  assume "0 < k"
  then obtain j where k: "k = Suc j" by (cases k) auto
  show ?thesis unfolding k
    by (cases x) (simp_all add: fmean_def fsum_replicate del: replicate_Suc)
qed

lemma mean_axis0_replicate:
  assumes "0 < k" shows "mean_axis0 (length v) (replicate k v) = v"
proof -
  have "mean_axis0 (length v) (replicate k v) = map (\<lambda>j. v ! j) [0..<length v]"
    using assms by (simp add: mean_axis0_def fmean_replicate)
  then show ?thesis by (simp add: map_nth)
qed

lemma slice_from_replicate:
  assumes "0 \<le> w" "0 < n"
  obtains k where "0 < k" "slice_from (- w) (replicate n v) = replicate k v"
proof (cases "w = 0")
  case True
  then have "slice_from (- w) (replicate n v) = replicate n v"
    by (simp add: slice_from_def)
  with assms(2) that show ?thesis by simp
next
  case False
  then have "slice_from (- w) (replicate n v) = replicate (n - nat (int n - w)) v"
    using assms(1) by (simp add: slice_from_def)
  moreover have "0 < n - nat (int n - w)" using False assms by linarith
  ultimately show ?thesis by (rule that[rotated])
qed

lemma py_int_nonneg: "0 \<le> x \<Longrightarrow> 0 \<le> py_int x"
  by (simp add: py_int_def)

text \<open>
  Every run of \<open>optimize\<close> that returns gives a history whose rows are all the same
  array, the parameter at the end of the run, and (for a proportion that is not
  negative) this array as the "iterate average".
\<close>

lemma optimize_history_aliased:
  assumes "optimize self n_iters objective init_param smoothed_prop = Inr r"
  shows "\<exists>v. variational_param_history_arr r = replicate (nat n_iters) v \<and>
             (if 0 \<le> smoothed_prop then smoothed_opt_param r = v else True)"
proof -
  let ?w = "py_int (real_of_int n_iters * smoothed_prop)"
  from assms obtain s where
    loop: "optimize_loop self objective (nat n_iters) (optimize_init init_param) = Inr s" and
    fin: "optimize_finish ?w s = Inr r"
    by (auto simp: optimize_def Let_def split: sum.splits)
  from optimize_loop_one_array[OF loop one_array_init(1)]
  have inv: "one_array s" and len: "length (variational_param_history s) = nat n_iters"
    by (simp_all add: one_array_init(2))
  let ?v = "heap s ! 0"
  have rows: "map (\<lambda>r. heap s ! r) (variational_param_history s) = replicate (nat n_iters) ?v"
  proof -
    have "variational_param_history s = replicate (nat n_iters) 0"
      using inv len by (simp add: one_array_def)
    then show ?thesis by (simp add: map_replicate)
  qed
  have pos: "0 < nat n_iters"
  proof (rule ccontr)
    assume "\<not> 0 < nat n_iters"
    then have "variational_param_history s = []" using len by simp
    then have "optimize_finish ?w s = Inl IndexError" by (simp add: optimize_finish_def)
    with fin show False by simp
  qed
  have r: "r = \<lparr>smoothed_opt_param =
                  mean_axis0 (length ?v) (slice_from (- ?w) (replicate (nat n_iters) ?v)),
                variational_param_history_arr = replicate (nat n_iters) ?v,
                value_history_arr = value_history s\<rparr>"
  proof -
    have ne: "replicate (nat n_iters) ?v \<noteq> []" using pos by simp
    have hd: "hd (replicate (nat n_iters) ?v) = ?v" using pos by simp
    from fin have "Inr r = optimize_finish ?w s" by simp
    also have "\<dots> = Inr \<lparr>smoothed_opt_param =
                  mean_axis0 (length ?v) (slice_from (- ?w) (replicate (nat n_iters) ?v)),
                variational_param_history_arr = replicate (nat n_iters) ?v,
                value_history_arr = value_history s\<rparr>"
      unfolding optimize_finish_def Let_def rows using ne hd by simp
    finally show ?thesis by simp
  qed
  have "smoothed_opt_param r = ?v" if "0 \<le> smoothed_prop"
  proof -
    have "0 \<le> real_of_int n_iters * smoothed_prop" using that pos by simp
    then have "0 \<le> ?w" by (rule py_int_nonneg)
    from slice_from_replicate[OF this pos]
    obtain k where k: "0 < k"
      "slice_from (- ?w) (replicate (nat n_iters) ?v) = replicate k ?v" .
    have "smoothed_opt_param r = mean_axis0 (length ?v) (replicate k ?v)"
      by (subst r) (simp add: k(2))
    then show ?thesis by (simp only: mean_axis0_replicate[OF k(1)])
  qed
  then show ?thesis using r by auto
qed

text \<open>
  Claim C3. Each entry of \<open>variational_param_history\<close> should keep the parameter as it
  was at the end of its iteration. The loop appends the array object that it then
  updates in place, so every entry is the same array. For \<open>RMSProp(1.0, 0.5, 3.0)\<close>,
  the gradient \<open>[1.0]\<close>, \<open>init_param = [0.0]\<close> and two iterations, the parameter is
  \<open>[-0.5]\<close> at the end of the first iteration, and the first entry of the returned
  history is \<open>[-1.0]\<close>.
\<close>

theorem history_entry_changed_by_later_iteration:
  "param_after ex_rmsprop ex_objective [Fin 0] 0 = Inr [Fin (- (1/2))] \<and>
   map_sum id (\<lambda>r. variational_param_history_arr r ! 0)
     (optimize ex_rmsprop 2 ex_objective [Fin 0] 1) = Inr [Fin (- 1)]"
  by (simp add: ex_param_after ex_optimize_2)

text \<open>
  Claim C4. \<open>smoothed_opt_param\<close> should be the mean of the last
  \<open>floor(n_iters * smoothed_prop)\<close> parameter snapshots. In the same run, with
  \<open>smoothed_prop = 1\<close>, the snapshots are \<open>[-0.5]\<close> and \<open>[-1.0]\<close> and their mean is
  \<open>[-0.75]\<close>; the source returns \<open>[-1.0]\<close>, the mean of two references to the final
  array.
\<close>

theorem smoothed_opt_param_not_iterate_average:
  "spec_iterate_average 2 1 (param_snapshots ex_rmsprop ex_objective [Fin 0] 2)
     = [Fin (- (3/4))] \<and>
   map_sum id smoothed_opt_param (optimize ex_rmsprop 2 ex_objective [Fin 0] 1)
     = Inr [Fin (- 1)]"
  by (simp add: ex_param_snapshots spec_iterate_average_def mean_axis0_def fmean_def fsum_def
      ex_optimize_2)

text \<open>
  A second defect on the same line: for \<open>floor(n_iters * smoothed_prop) = 0\<close> the slice
  \<open>[-0:]\<close> is the whole history, not its last 0 rows. With one iteration and the
  default proportion 0.2 the source averages the only row, where the mean of no
  snapshot is \<open>nan\<close>.
\<close>

lemma ex_optimize_1:
  "optimize ex_rmsprop 1 ex_objective [Fin 0] (1/5) =
     Inr \<lparr>smoothed_opt_param = [Fin (- (1/2))],
          variational_param_history_arr = [[Fin (- (1/2))]],
          value_history_arr = [Fin 0]\<rparr>"
  by (simp add: opt_eval)

lemma ex_spec_iterate_average_1:
  "spec_iterate_average 1 (1/5) (param_snapshots ex_rmsprop ex_objective [Fin 0] 1) = [NaN]"
  by (simp add: param_snapshots_def ex_param_after spec_iterate_average_def mean_axis0_def
      fmean_def fsum_def signed_inf_def)

section \<open>Descent directions and the specification\<close>

lemma broadcast_same_length:
  "length xs = length ys \<Longrightarrow> broadcast f xs ys = Inr (map2 f xs ys)"
  by (simp add: broadcast_def)

lemma map2_map_map:
  "map2 f (map g xs) (map h ys) = map2 (\<lambda>x y. f (g x) (h y)) xs ys"
  by (simp add: zip_map_map split_def)

lemma map2_map_right:
  "map2 f xs (map h ys) = map2 (\<lambda>x y. f x (h y)) xs ys"
  by (simp add: zip_map2 split_def)

lemma length_spec_acc:
  "length (spec_rmsprop_acc beta acc grad) = min (length acc) (length grad)"
  "length (spec_adagrad_acc acc grad) = min (length acc) (length grad)"
  by (simp_all add: spec_rmsprop_acc_def spec_adagrad_acc_def)

lemma RMSProp_descent_direction_spec:
  assumes "length (first_acc grad hist) = length grad"
  shows "RMSProp_descent_direction (RMSProp_init lr beta jitter) grad hist =
     Inr (spec_direction jitter grad (spec_rmsprop_acc beta (first_acc grad hist) grad),
          spec_rmsprop_acc beta (first_acc grad hist) grad)"
proof -
  let ?acc = "first_acc grad hist"
  have a: "broadcast fadd (map (\<lambda>h. fmul h (Fin beta)) ?acc)
             (map (fmul (Fin (1 - beta))) (map fsquare grad)) =
           Inr (spec_rmsprop_acc beta ?acc grad)"
  proof -
    have "map2 fadd (map (\<lambda>h. fmul h (Fin beta)) ?acc)
            (map (fmul (Fin (1 - beta))) (map fsquare grad)) = spec_rmsprop_acc beta ?acc grad"
      unfolding spec_rmsprop_acc_def map_map map2_map_map
      by (simp add: fmul_comm[of _ "Fin beta"])
    then show ?thesis using assms by (simp add: broadcast_same_length del: map_map)
  qed
  let ?acc' = "spec_rmsprop_acc beta ?acc grad"
  have d: "broadcast fdiv grad
             (map fsqrt (map (fadd (Fin jitter)) (spec_rmsprop_acc beta ?acc grad))) =
           Inr (spec_direction jitter grad (spec_rmsprop_acc beta ?acc grad))"
  proof -
    have "map2 fdiv grad (map fsqrt (map (fadd (Fin jitter)) ?acc')) =
          spec_direction jitter grad ?acc'"
      unfolding spec_direction_def map_map map2_map_right
      by (simp add: fadd_comm[of "Fin jitter"])
    then show ?thesis
      using assms by (simp add: broadcast_same_length length_spec_acc del: map_map)
  qed
  show ?thesis
    unfolding RMSProp_descent_direction_def Let_def first_acc_def[symmetric]
    by (simp add: getattr_RMSProp_init a d del: map_map)
qed

lemma AdaGrad_descent_direction_spec:
  assumes "length (first_acc grad hist) = length grad"
  shows "AdaGrad_descent_direction (AdaGrad_init lr jitter) grad hist =
     Inr (spec_direction jitter grad (spec_adagrad_acc (first_acc grad hist) grad),
          spec_adagrad_acc (first_acc grad hist) grad)"
proof -
  let ?acc = "first_acc grad hist"
  have a: "broadcast fadd ?acc (map fsquare grad) = Inr (spec_adagrad_acc ?acc grad)"
  proof -
    have "map2 fadd ?acc (map fsquare grad) = spec_adagrad_acc ?acc grad"
      unfolding spec_adagrad_acc_def map2_map_right by simp
    then show ?thesis using assms by (simp add: broadcast_same_length)
  qed
  let ?acc' = "spec_adagrad_acc ?acc grad"
  have d: "broadcast fdiv grad
             (map fsqrt (map (fadd (Fin jitter)) (spec_adagrad_acc ?acc grad))) =
           Inr (spec_direction jitter grad (spec_adagrad_acc ?acc grad))"
  proof -
    have "map2 fdiv grad (map fsqrt (map (fadd (Fin jitter)) ?acc')) =
          spec_direction jitter grad ?acc'"
      unfolding spec_direction_def map_map map2_map_right
      by (simp add: fadd_comm[of "Fin jitter"])
    then show ?thesis
      using assms by (simp add: broadcast_same_length length_spec_acc del: map_map)
  qed
  show ?thesis
    unfolding AdaGrad_descent_direction_def Let_def first_acc_def[symmetric]
    by (simp add: getattr_AdaGrad_init a d del: map_map)
qed

text \<open>On finite values with positive denominators the formulas are those of the reals.\<close>

lemma spec_rmsprop_acc_Fin:
  "spec_rmsprop_acc beta (map Fin a) (map Fin g) =
     map Fin (map2 (\<lambda>a g. beta * a + (1 - beta) * g\<^sup>2) a g)"
  by (simp add: spec_rmsprop_acc_def zip_map_map split_def fsquare_def power2_eq_square)

lemma spec_adagrad_acc_Fin:
  "spec_adagrad_acc (map Fin a) (map Fin g) = map Fin (map2 (\<lambda>a g. a + g\<^sup>2) a g)"
  by (simp add: spec_adagrad_acc_def zip_map_map split_def fsquare_def power2_eq_square)

lemma spec_direction_Fin:
  assumes "list_all (\<lambda>a. 0 < a + jitter) a"
  shows "spec_direction jitter (map Fin g) (map Fin a) =
     map Fin (map2 (\<lambda>g a. g / sqrt (a + jitter)) g a)"
proof -
  have "map (\<lambda>p. fdiv (Fin (fst p)) (fsqrt (fadd (Fin (snd p)) (Fin jitter)))) (zip g a) =
        map (\<lambda>p. Fin (fst p / sqrt (snd p + jitter))) (zip g a)"
  proof (rule map_cong[OF refl])
    fix p assume "p \<in> set (zip g a)"
    then have "(fst p, snd p) \<in> set (zip g a)" by simp
    then have "snd p \<in> set a" by (rule set_zip_rightD)
    with assms have "0 < snd p + jitter" by (simp add: list_all_iff)
    then show "fdiv (Fin (fst p)) (fsqrt (fadd (Fin (snd p)) (Fin jitter))) =
               Fin (fst p / sqrt (snd p + jitter))"
      by simp
  qed
  then show ?thesis
    by (simp add: spec_direction_def zip_map_map split_def)
qed

subsection \<open>Zero gradients\<close>

lemma descent_direction_RMSProp [simp]:
  "descent_direction (RMSProp_init lr beta jitter) = RMSProp_descent_direction (RMSProp_init lr beta jitter)"
  by (simp add: descent_direction_def RMSProp_init_def StochasticGradientOptimizer_init_def fun_eq_iff)

lemma descent_direction_AdaGrad [simp]:
  "descent_direction (AdaGrad_init lr jitter) = AdaGrad_descent_direction (AdaGrad_init lr jitter)"
  by (simp add: descent_direction_def AdaGrad_init_def StochasticGradientOptimizer_init_def fun_eq_iff)

lemma first_acc_zeros:
  "hist = None \<or> hist = Some (zeros d) \<Longrightarrow> first_acc (zeros d) hist = zeros d"
  by (auto simp: first_acc_def zeros_def fsquare_def)

lemma spec_zero:
  "spec_rmsprop_acc beta (zeros d) (zeros d) = zeros d"
  "spec_adagrad_acc (zeros d) (zeros d) = zeros d"
  "0 < jitter \<Longrightarrow> spec_direction jitter (zeros d) (zeros d) = zeros d"
  by (simp_all add: spec_rmsprop_acc_def spec_adagrad_acc_def spec_direction_def zeros_def
      fsquare_def)

lemma zero_step:
  assumes "0 < jitter" "hist = None \<or> hist = Some (zeros d)"
  shows "RMSProp_descent_direction (RMSProp_init lr beta jitter) (zeros d) hist = Inr (zeros d, zeros d)"
    "AdaGrad_descent_direction (AdaGrad_init lr jitter) (zeros d) hist = Inr (zeros d, zeros d)"
proof -
  have l: "length (first_acc (zeros d) hist) = length (zeros d)"
    using assms(2) by (simp add: first_acc_zeros)
  show "RMSProp_descent_direction (RMSProp_init lr beta jitter) (zeros d) hist = Inr (zeros d, zeros d)"
    using assms by (simp add: RMSProp_descent_direction_spec[OF l] first_acc_zeros spec_zero)
  show "AdaGrad_descent_direction (AdaGrad_init lr jitter) (zeros d) hist = Inr (zeros d, zeros d)"
    using assms by (simp add: AdaGrad_descent_direction_spec[OF l] first_acc_zeros spec_zero)
qed

lemma zero_run:
  assumes "0 < jitter"
  shows "hist = None \<or> hist = Some (zeros d) \<Longrightarrow>
     run_directions (RMSProp_init lr beta jitter) (replicate n (zeros d)) hist = Inr (replicate n (zeros d, zeros d))
   \<and> run_directions (AdaGrad_init lr jitter) (replicate n (zeros d)) hist = Inr (replicate n (zeros d, zeros d))"
proof (induction n arbitrary: hist)
  case 0
  then show ?case by simp
next
  case (Suc n)
  have "Some (zeros d) = None \<or> Some (zeros d) = Some (zeros d)" by simp
  from Suc.IH[OF this] zero_step[OF assms Suc.prems] show ?case by simp
qed

subsection \<open>The accumulator of AdaGrad\<close>

lemma is_finite_iff: "is_finite x = (\<exists>a. x = Fin a)"
  by (cases x) simp_all

lemma adagrad_entry:
  assumes "is_finite a" "is_finite g"
  shows "is_finite (fadd a (fsquare g))" "fle a (fadd a (fsquare g))"
  using assms by (auto simp: is_finite_iff fsquare_def)

lemma finite_vec_square: "finite_vec d g \<Longrightarrow> finite_vec d (map fsquare g)"
  by (auto simp: finite_vec_def list_all_iff is_finite_iff fsquare_def)

lemma spec_adagrad_acc_finite:
  assumes "finite_vec d h" "finite_vec d g"
  shows "finite_vec d (spec_adagrad_acc h g)" "list_all2 fle h (spec_adagrad_acc h g)"
proof -
  have len: "length h = d" "length g = d" using assms by (simp_all add: finite_vec_def)
  have fin: "is_finite (h ! i)" "is_finite (g ! i)" if "i < d" for i
    using assms that by (simp_all add: finite_vec_def list_all_length)
  have nth: "spec_adagrad_acc h g ! i = fadd (h ! i) (fsquare (g ! i))" if "i < d" for i
    using that len by (simp add: spec_adagrad_acc_def)
  have l: "length (spec_adagrad_acc h g) = d" using len by (simp add: length_spec_acc)
  show "finite_vec d (spec_adagrad_acc h g)"
    using l nth fin adagrad_entry(1) by (simp add: finite_vec_def list_all_length)
  show "list_all2 fle h (spec_adagrad_acc h g)"
    using l len nth fin adagrad_entry(2) by (simp add: list_all2_conv_all_nth)
qed

lemma adagrad_step:
  assumes "finite_vec d (first_acc g hist)" "finite_vec d g"
  shows "\<exists>dir. AdaGrad_descent_direction (AdaGrad_init lr jitter) g hist =
           Inr (dir, spec_adagrad_acc (first_acc g hist) g)"
proof -
  have "length (first_acc g hist) = length g" using assms by (simp add: finite_vec_def)
  from AdaGrad_descent_direction_spec[OF this] show ?thesis by blast
qed

lemma adagrad_run_from:
  assumes "list_all (finite_vec d) gs" "finite_vec d h"
  shows "\<exists>rs. run_directions (AdaGrad_init lr jitter) gs (Some h) = Inr rs \<and>
              length rs = length gs \<and> nondecreasing (h # map snd rs)"
  using assms
proof (induction gs arbitrary: h)
  case Nil
  then show ?case by simp
next
  case (Cons g gs)
  from Cons.prems have g: "finite_vec d g" and gs: "list_all (finite_vec d) gs" by simp_all
  let ?h' = "spec_adagrad_acc h g"
  have fa: "first_acc g (Some h) = h" by (simp add: first_acc_def)
  from adagrad_step[of d g "Some h" lr jitter] Cons.prems(2) g fa
  obtain dir where step: "AdaGrad_descent_direction (AdaGrad_init lr jitter) g (Some h) = Inr (dir, ?h')"
    by auto
  from spec_adagrad_acc_finite[OF Cons.prems(2) g]
  have h': "finite_vec d ?h'" and le: "list_all2 fle h ?h'" by simp_all
  from Cons.IH[OF gs h'] obtain rs where
    rs: "run_directions (AdaGrad_init lr jitter) gs (Some ?h') = Inr rs"
        "length rs = length gs" "nondecreasing (?h' # map snd rs)"
    by blast
  have "run_directions (AdaGrad_init lr jitter) (g # gs) (Some h) = Inr ((dir, ?h') # rs)"
    using step rs(1) by simp
  moreover have "nondecreasing (h # map snd ((dir, ?h') # rs))"
    using le rs(3) by simp
  ultimately show ?case using rs(2) by simp
qed

lemma nondecreasing_tl: "nondecreasing (a # rest) \<Longrightarrow> nondecreasing rest"
  by (cases rest) simp_all

lemma adagrad_run:
  assumes "list_all (finite_vec d) gs"
  shows "\<exists>rs. run_directions (AdaGrad_init lr jitter) gs None = Inr rs \<and>
              length rs = length gs \<and> nondecreasing (map snd rs)"
proof (cases gs)
  case Nil
  then show ?thesis by simp
next
  case (Cons g gs')
  with assms have g: "finite_vec d g" and gs: "list_all (finite_vec d) gs'" by simp_all
  have fa: "first_acc g None = map fsquare g" by (simp add: first_acc_def)
  let ?h' = "spec_adagrad_acc (map fsquare g) g"
  from adagrad_step[of d g None lr jitter] finite_vec_square[OF g] g fa
  obtain dir where step: "AdaGrad_descent_direction (AdaGrad_init lr jitter) g None = Inr (dir, ?h')"
    by auto
  from spec_adagrad_acc_finite(1)[OF finite_vec_square[OF g] g] have h': "finite_vec d ?h'" .
  from adagrad_run_from[OF gs h'] obtain rs where
    rs: "run_directions (AdaGrad_init lr jitter) gs' (Some ?h') = Inr rs"
        "length rs = length gs'" "nondecreasing (?h' # map snd rs)"
    by blast
  have "run_directions (AdaGrad_init lr jitter) gs None = Inr ((dir, ?h') # rs)"
    using step rs(1) Cons by simp
  then show ?thesis using rs(2,3) Cons by simp
qed

text \<open>
  Claim C7. For every gradient and every accumulator state of the length of the gradient
  (or none, on the first call), \<open>RMSProp.descent_direction\<close> and
  \<open>AdaGrad.descent_direction\<close> return the accumulator and the direction of the
  formulas of the specification, the accumulator taken as \<open>grad^2\<close> on the first call.
\<close>

theorem descent_direction_formulas:
  assumes "length (first_acc grad hist) = length grad"
  shows "RMSProp_descent_direction (RMSProp_init lr beta jitter) grad hist =
           Inr (spec_direction jitter grad (spec_rmsprop_acc beta (first_acc grad hist) grad),
                spec_rmsprop_acc beta (first_acc grad hist) grad) \<and>
         AdaGrad_descent_direction (AdaGrad_init lr jitter) grad hist =
           Inr (spec_direction jitter grad (spec_adagrad_acc (first_acc grad hist) grad),
                spec_adagrad_acc (first_acc grad hist) grad)"
  using RMSProp_descent_direction_spec[OF assms] AdaGrad_descent_direction_spec[OF assms]
  by simp

theorem descent_direction_formulas_witness:
  "length (first_acc [Fin 1] None) = length [Fin 1] \<and>
   RMSProp_descent_direction (RMSProp_init 1 (1/2) 3) [Fin 1] None =
     Inr ([Fin (1/2)], [Fin 1]) \<and>
   AdaGrad_descent_direction (AdaGrad_init 1 2) [Fin 1] None = Inr ([Fin (1/2)], [Fin 2]) \<and>
   length (first_acc [Fin 2] (Some [Fin 5])) = length [Fin 2] \<and>
   AdaGrad_descent_direction (AdaGrad_init 1 7) [Fin 2] (Some [Fin 5]) =
     Inr ([Fin (1/2)], [Fin 9])"
  using descent_direction_formulas[of "[Fin 1]" None 1 "1/2" 3]
    descent_direction_formulas[of "[Fin 1]" None 1 "1/2" 2]
    descent_direction_formulas[of "[Fin 2]" "Some [Fin 5]" 1 "1/2" 7]
  by (simp add: first_acc_def spec_direction_def spec_rmsprop_acc_def spec_adagrad_acc_def
      fsquare_def)

text \<open>
  Claim C8, amended. For a positive jitter: in a sequence of calls from the first one
  whose gradients are all the zero vector, RMSProp and AdaGrad return the zero vector as
  direction at every call, and their accumulators remain zero; and for every sequence
  of finite gradients of one length, the accumulator of AdaGrad never decreases
  from one call to the next, in any element.
\<close>

theorem zero_gradient_directions:
  assumes "0 < jitter" "list_all (finite_vec d) gs"
  shows "run_directions (RMSProp_init lr beta jitter) (replicate n (zeros d)) None =
           Inr (replicate n (zeros d, zeros d)) \<and>
         run_directions (AdaGrad_init lr jitter) (replicate n (zeros d)) None =
           Inr (replicate n (zeros d, zeros d)) \<and>
         (\<exists>rs. run_directions (AdaGrad_init lr jitter) gs None = Inr rs \<and>
               length rs = length gs \<and> nondecreasing (map snd rs))"
  using zero_run[OF assms(1), of None d lr beta n] adagrad_run[OF assms(2), of lr jitter]
  by simp

theorem zero_gradient_directions_witness:
  "0 < (1/100000000::real) \<and> list_all (finite_vec 1) [[Fin 1], [Fin 2]] \<and>
   run_directions (RMSProp_init (1/100) (9/10) (1/100000000)) [[Fin 0], [Fin 0]] None =
     Inr [([Fin 0], [Fin 0]), ([Fin 0], [Fin 0])] \<and>
   run_directions (AdaGrad_init (1/100) (1/100000000)) [[Fin 0], [Fin 0]] None =
     Inr [([Fin 0], [Fin 0]), ([Fin 0], [Fin 0])] \<and>
   (\<exists>rs. run_directions (AdaGrad_init (1/100) (1/100000000)) [[Fin 1], [Fin 2]] None = Inr rs \<and>
         length rs = 2 \<and> nondecreasing (map snd rs))"
  using zero_gradient_directions[of "1/100000000" 1 "[[Fin 1], [Fin 2]]" "1/100" "9/10" 2]
  by (simp add: finite_vec_def zeros_def numeral_2_eq_2)

text \<open>
  The claim as stated, for every optimizer, fails at \<open>jitter = 0\<close>: the direction for
  the zero gradient is \<open>0/0\<close>, which is \<open>nan\<close>.
\<close>

theorem zero_jitter_direction_nan:
  "run_directions (RMSProp_init (1/100) (9/10) 0) [[Fin 0]] None = Inr [([NaN], [Fin 0])]"
  by (simp add: RMSProp_descent_direction_def getattr_RMSProp_init broadcast_def fsquare_def
      signed_inf_def)

section \<open>The stationarity test\<close>

lemma foldl_fadd_map_Fin: "foldl fadd (Fin a) (map Fin xs) = Fin (a + sum_list xs)"
  by (induction xs arbitrary: a) (simp_all add: add.assoc)

lemma fsum_map_Fin: "fsum (map Fin xs) = Fin (sum_list xs)"
  by (simp add: fsum_def foldl_fadd_map_Fin)

lemma fmean_map_Fin: "xs \<noteq> [] \<Longrightarrow> fmean (map Fin xs) = Fin (arith_mean xs)"
  by (simp add: fmean_def fsum_map_Fin arith_mean_def)

lemma concat_chunks:
  "length xs = m * b \<Longrightarrow> concat (map (\<lambda>i. take b (drop (i * b) xs)) [0..<m]) = xs"
proof (induction m arbitrary: xs)
  case 0
  then show ?case by simp
next
  case (Suc m)
  have l: "length (drop b xs) = m * b" using Suc.prems by simp
  have "map (\<lambda>i. take b (drop (i * b) xs)) [0..<Suc m] =
        take b xs # map (\<lambda>i. take b (drop (i * b) (drop b xs))) [0..<m]"
  proof -
    have "[0..<Suc m] = 0 # map Suc [0..<m]"
      by (simp add: upt_conv_Cons map_Suc_upt del: upt_Suc)
    then show ?thesis by (simp add: add.commute del: upt_Suc)
  qed
  then show ?case using Suc.IH[OF l] by (simp del: upt_Suc)
qed

lemma chunk_length:
  assumes "length xs = b * b" "i < b"
  shows "length (take b (drop (i * b) xs)) = b"
proof -
  have "Suc i * b \<le> b * b" using assms(2) by (intro mult_le_mono1) simp
  then show ?thesis using assms(1) by simp
qed

lemma batch_size_nonneg: "1 < batch_size W \<Longrightarrow> 0 \<le> W"
proof (rule ccontr)
  assume b: "1 < batch_size W" and "\<not> 0 \<le> W"
  then have "real_of_int W \<le> 0" by simp
  then have "sqrt (real_of_int W) \<le> 0" by simp
  then have "batch_size W \<le> 0" unfolding batch_size_def by linarith
  with b show False by simp
qed

lemma slice_last_map_Fin:
  assumes "0 < b" "b * b \<le> length ds"
  shows "slice_from (- (int b * int b)) (map Fin ds) = map Fin (spec_window b ds)"
proof -
  have neg: "- (int b * int b) < 0" using assms(1) by simp
  have "nat (int (length ds) + - (int b * int b)) = length ds - b * b"
    using assms(2) by (simp add: nat_diff_distrib' flip: of_nat_mult)
  then show ?thesis using neg
    by (simp add: slice_from_def spec_window_def drop_map)
qed

lemma length_spec_window: "b * b \<le> length ds \<Longrightarrow> length (spec_window b ds) = b * b"
  by (simp add: spec_window_def)

lemma reshape_map_Fin:
  assumes "b * b \<le> length ds"
  shows "reshape (map Fin (spec_window b ds)) (int b) (int b) =
         Inr (map (map Fin) (spec_batches b ds))"
proof -
  have "int (length (map Fin (spec_window b ds))) = int b * int b"
    using length_spec_window[OF assms] by simp
  then show ?thesis
    by (simp add: reshape_def spec_batches_def take_map drop_map)
qed

lemma batch_means_Fin:
  assumes "0 < b" "b * b \<le> length ds"
  shows "map fmean (map (map Fin) (spec_batches b ds)) =
         map Fin (map arith_mean (spec_batches b ds))"
proof -
  have "fmean (map Fin x) = Fin (arith_mean x)" if "x \<in> set (spec_batches b ds)" for x
  proof -
    from that obtain i where i: "i < b" "x = take b (drop (i * b) (spec_window b ds))"
      by (auto simp: spec_batches_def)
    have "length x = b" unfolding i(2)
      by (rule chunk_length[OF length_spec_window[OF assms(2)] i(1)])
    then have "x \<noteq> []" using assms(1) by auto
    then show ?thesis by (rule fmean_map_Fin)
  qed
  then show ?thesis by simp
qed

lemma grand_mean_Fin:
  assumes "0 < b" "b * b \<le> length ds"
  shows "fmean (concat (map (map Fin) (spec_batches b ds))) = Fin (spec_mu b ds)"
proof -
  have "concat (spec_batches b ds) = spec_window b ds"
    unfolding spec_batches_def by (rule concat_chunks[OF length_spec_window[OF assms(2)]])
  then have c: "concat (map (map Fin) (spec_batches b ds)) = map Fin (spec_window b ds)"
    by (simp flip: map_concat)
  have "spec_window b ds \<noteq> []"
    using length_spec_window[OF assms(2)] assms(1) by auto
  then show ?thesis unfolding c spec_mu_def by (rule fmean_map_Fin)
qed

lemma sigma_n_Fin:
  assumes "1 < b"
  shows "sigma_n (int b) (int b) (map Fin (map arith_mean (spec_batches b ds)))
           (Fin (spec_mu b ds)) = Fin (sqrt (spec_sigma2 b ds))"
proof -
  let ?bm = "map arith_mean (spec_batches b ds)"
  let ?S = "sum_list (map (\<lambda>x. (x - spec_mu b ds)\<^sup>2) ?bm)"
  have sq: "map (\<lambda>x. fsquare (fsub x (Fin (spec_mu b ds)))) (map Fin ?bm) =
            map Fin (map (\<lambda>x. (x - spec_mu b ds)\<^sup>2) ?bm)"
    by (simp add: fsquare_def fsub_def power2_eq_square)
  have S: "0 \<le> ?S" by (rule sum_list_nonneg) auto
  have ratio: "fdiv (Fin (real_of_int (int b))) (Fin (real_of_int (int b - 1))) =
               Fin (real b / (real b - 1))"
    using assms by simp
  have "0 \<le> real b / (real b - 1)" using assms by simp
  then have nn: "0 \<le> spec_sigma2 b ds"
    unfolding spec_sigma2_def using S by (rule mult_nonneg_nonneg)
  have "sigma_n (int b) (int b) (map Fin ?bm) (Fin (spec_mu b ds)) =
        fsqrt (Fin (spec_sigma2 b ds))"
    unfolding sigma_n_def sq fsum_map_Fin ratio by (simp add: spec_sigma2_def)
  then show ?thesis using nn by simp
qed

lemma convergence_check_finite:
  assumes b: "batch_size W = int b" "1 < b" and len: "b * b \<le> length ds"
    and q: "ppf (1 - u_delta self / 2) (int b - 1) = Fin tq"
  shows "convergence_check self ppf W (map Fin ds) = Inr (spec_stationary tq b ds)"
proof -
  have W: "\<not> W < 0" using batch_size_nonneg[of W] b by simp
  have pos: "0 < b" using b(2) by simp
  have root: "fsqrt (Fin (real_of_int (int b * int b))) = Fin (sqrt (real (b * b)))"
    by simp
  have nz: "sqrt (real (b * b)) \<noteq> 0" using pos by simp
  have sd: "fmul (Fin tq) (fdiv (Fin (sqrt (spec_sigma2 b ds))) (Fin (sqrt (real (b * b))))) =
            Fin (tq * sqrt (spec_sigma2 b ds) / sqrt (real (b * b)))"
    using nz by simp
  show ?thesis
    unfolding convergence_check_def Let_def b(1)
    using W
    by (simp only: if_False slice_last_map_Fin[OF pos len] reshape_map_Fin[OF len] sum.case
        grand_mean_Fin[OF pos len] batch_means_Fin[OF pos len] sigma_n_Fin[OF b(2)] q root sd
        spec_stationary_def Let_def fsub_def fneg.simps fadd.simps fless.simps)
       simp
qed

lemma batch_size_4: "batch_size 4 = 2"
proof -
  have "sqrt (real_of_int 4) = 2" using real_sqrt_four by simp
  then show ?thesis by (simp add: batch_size_def)
qed

text \<open>
  Claim C5. For a window size \<open>W\<close> with \<open>b = floor(sqrt(W)) > 1\<close>, a history of at
  least \<open>b*b\<close> finite values of \<open>Delta\<close> and the quantile
  \<open>tq = ppf(1 - delta/2, b - 1)\<close>, \<open>convergence_check\<close> returns \<open>True\<close> exactly when
  the test of the specification holds: 0 lies strictly inside the interval around the
  grand mean of the last \<open>b*b\<close> values, built from the \<open>b\<close> batch means.
\<close>

theorem convergence_check_batch_means:
  assumes "1 < batch_size W"
    and "nat (batch_size W) * nat (batch_size W) \<le> length ds"
    and "ppf (1 - u_delta self / 2) (batch_size W - 1) = Fin tq"
  shows "convergence_check self ppf W (map Fin ds) =
         Inr (spec_stationary tq (nat (batch_size W)) ds)"
proof -
  have b: "batch_size W = int (nat (batch_size W))" "1 < nat (batch_size W)"
    using assms(1) by simp_all
  have q: "ppf (1 - u_delta self / 2) (int (nat (batch_size W)) - 1) = Fin tq"
    using assms(1,3) by simp
  show ?thesis
    using b assms(2) q
    by (rule convergence_check_finite[where b = "nat (batch_size W)" and ppf = ppf
        and self = self and tq = tq])
qed

lemma ex_spec_stationary: "spec_stationary 2 2 [1, 1, - 1, - 1] = True"
proof -
  have w: "spec_window 2 [1, 1, - 1, - 1] = [1, 1, - 1, - 1]"
    by (simp add: spec_window_def)
  have b: "spec_batches 2 [1, 1, - 1, - 1] = [[1, 1], [- 1, - 1]]"
    by (simp add: spec_batches_def spec_window_def numeral_2_eq_2)
  have mu: "spec_mu 2 [1, 1, - 1, - 1] = 0"
    by (simp add: spec_mu_def w arith_mean_def)
  have s: "spec_sigma2 2 [1, 1, - 1, - 1] = 4"
    by (simp add: spec_sigma2_def b mu arith_mean_def)
  show ?thesis
    by (simp add: spec_stationary_def s mu)
qed

theorem convergence_check_batch_means_witness:
  "1 < batch_size 4 \<and>
   nat (batch_size 4) * nat (batch_size 4) \<le> length [1, 1, - 1, - 1 :: real] \<and>
   (\<lambda>q df. Fin 2) (1 - u_delta ex_sasa / 2) (batch_size 4 - 1) = Fin 2 \<and>
   convergence_check ex_sasa (\<lambda>q df. Fin 2) 4 (map Fin [1, 1, - 1, - 1]) = Inr True"
  using convergence_check_batch_means[of 4 "[1, 1, - 1, - 1]" "\<lambda>q df. Fin 2" ex_sasa 2]
  by (simp add: batch_size_4 ex_spec_stationary)

section \<open>Degenerate windows\<close>

lemma fadd_NaN_right [simp]: "fadd x NaN = NaN"
  by (cases x) simp_all

lemma fmul_NaN_right [simp]: "fmul x NaN = NaN"
  by (cases x) simp_all

lemma fdiv_NaN_right [simp]: "fdiv x NaN = NaN"
  by (cases x) simp_all

lemma fless_NaN_right [simp]: "fless x NaN = False"
  by (cases x) simp_all

lemma zero_divisor_statistic: "fmul PInf (fadd (Fin 0) (fsquare (fsub x x))) = NaN"
  by (cases x) (simp_all add: fsquare_def fsub_def signed_inf_def)

lemma sigma_n_degenerate: "sigma_n 1 1 [x] x = NaN"
  by (simp add: sigma_n_def fsum_def zero_divisor_statistic signed_inf_def)

lemma batch_size_nonneg': "0 \<le> W \<Longrightarrow> 0 \<le> batch_size W"
  by (simp add: batch_size_def)

lemma batch_size_zero: "0 \<le> W \<Longrightarrow> batch_size W = 0 \<Longrightarrow> W = 0"
proof (rule ccontr)
  assume W: "0 \<le> W" and b: "batch_size W = 0" and "W \<noteq> 0"
  then have "1 \<le> real_of_int W" by simp
  then have "1 \<le> sqrt (real_of_int W)" by simp
  then have "1 \<le> batch_size W" unfolding batch_size_def by linarith
  with b show False by simp
qed

lemma batch_size_small: "batch_size W \<le> 1 \<Longrightarrow> W < 4"
proof (rule ccontr)
  assume b: "batch_size W \<le> 1" and "\<not> W < 4"
  then have "4 \<le> real_of_int W" by simp
  then have "sqrt 4 \<le> sqrt (real_of_int W)" by (simp only: real_sqrt_le_iff)
  then have "2 \<le> sqrt (real_of_int W)" by simp
  then have "2 \<le> batch_size W" unfolding batch_size_def by linarith
  with b show False by simp
qed

lemma convergence_check_one:
  assumes "batch_size W = 1" "0 \<le> W" "Ds \<noteq> []"
  shows "convergence_check self ppf W Ds = Inr False"
proof -
  have sl: "slice_from (- (1 * 1)) Ds = [last Ds]"
  proof -
    have "nat (int (length Ds) + - 1) = length Ds - 1" by simp
    moreover have "drop (length Ds - 1) Ds = [last Ds]"
    proof -
      have "drop (length (butlast Ds)) (butlast Ds @ [last Ds]) = [last Ds]" by simp
      then show ?thesis using assms(3) by simp
    qed
    ultimately show ?thesis by (simp add: slice_from_def)
  qed
  have rs: "reshape [last Ds] 1 1 = Inr [[last Ds]]"
    by (simp add: reshape_def)
  show ?thesis
    unfolding convergence_check_def Let_def assms(1) sl
    using assms(2)
    by (simp add: rs sigma_n_degenerate fsub_def)
qed

lemma batch_size_1: "batch_size 1 = 1"
  by (simp add: batch_size_def)

text \<open>
  What \<open>convergence_check\<close> does with a degenerate window and a history that is not
  empty: the reshape raises \<open>ValueError\<close> for \<open>b = 0\<close>; for \<open>b = 1\<close> the variance is
  computed with the divisor 0, the statistic is \<open>nan\<close> and the result is \<open>False\<close>.
\<close>

lemma convergence_check_degenerate:
  assumes "batch_size W \<le> 1" "0 \<le> W" "Ds \<noteq> []"
  shows "convergence_check self ppf W Ds = (if W = 0 then Inl ValueError else Inr False)"
proof (cases "W = 0")
  case True
  then show ?thesis using assms(3) by (simp add: convergence_check_0)
next
  case False
  with assms(2) batch_size_zero[of W] have "batch_size W \<noteq> 0" by auto
  with assms(1,2) batch_size_nonneg'[of W] have "batch_size W = 1" by simp
  from convergence_check_one[OF this assms(2,3)] False show ?thesis by simp
qed

text \<open>
  Claim C10, amended. The loop of \<open>convergence_test\<close> defers the stationarity test
  by its gate \<open>W >= W0\<close>: for \<open>W0 \<ge> 4\<close> (the default is 1000), an iteration whose
  window is degenerate (\<open>b = floor(sqrt(W)) \<le> 1\<close>) does not run the test, whatever the
  quantile function and the history are, and leaves the local variables as they are.
\<close>

theorem degenerate_window_deferred:
  assumes "batch_size (window self t (t0 s)) \<le> 1" and "4 \<le> u_W0 self"
  shows "check_and_reduce self kl ppf t s = Inr s"
proof -
  from batch_size_small[OF assms(1)] assms(2)
  have "\<not> u_W0 self \<le> window self t (t0 s)" by simp
  then show ?thesis by (simp add: check_and_reduce_def)
qed

theorem degenerate_window_deferred_witness:
  "batch_size (window ex_sasa 1 (t0 (sasa_init_state 1 [Fin 0]))) \<le> 1 \<and>
   4 \<le> u_W0 ex_sasa \<and>
   check_and_reduce ex_sasa (\<lambda>a b. Fin 0) (\<lambda>q df. NaN) 1 (sasa_init_state 1 [Fin 0]) =
     Inr (sasa_init_state 1 [Fin 0])"
proof -
  have w: "window ex_sasa 1 (t0 (sasa_init_state 1 [Fin 0])) = 1"
    by (simp add: ex_sasa_def window_def sasa_init_state_def alloc_def)
  have b: "batch_size (window ex_sasa 1 (t0 (sasa_init_state 1 [Fin 0]))) \<le> 1"
    by (simp add: w batch_size_1)
  have W0: "4 \<le> u_W0 ex_sasa" by (simp add: ex_sasa_def)
  from degenerate_window_deferred[OF b W0] b W0 show ?thesis by simp
qed

text \<open>
  The claim as stated, for every call of \<open>convergence_check\<close>, fails for \<open>W = 1\<close>
  and one value of \<open>Delta\<close>: the call is not rejected, \<open>sigma_n\<close> is computed with
  the divisor \<open>b - 1 = 0\<close> and is \<open>nan\<close>, and the call returns \<open>False\<close>.
\<close>

theorem degenerate_window_not_rejected:
  "batch_size 1 = 1 \<and>
   sigma_n (batch_size 1) (batch_size 1) [Fin 0] (Fin 0) = NaN \<and>
   convergence_check ex_sasa (\<lambda>q df. NaN) 1 [Fin 0] = Inr False"
  by (simp add: batch_size_1 sigma_n_degenerate convergence_check_one)

section \<open>The learning rate\<close>

lemma reduce_rate_fields:
  "learning_rate (reduce_rate self kl W t s) = u_rho self * learning_rate s"
  "Delta_history (reduce_rate self kl W t s) = Delta_history s"
  "t0 (reduce_rate self kl W t s) = t"
  by (simp_all add: reduce_rate_def Let_def)

lemma check_and_reduce_rate:
  assumes "check_and_reduce self kl ppf t s = Inr s'"
  shows "Delta_history s' = Delta_history s"
    "learning_rate s' =
       (if u_W0 self \<le> window self t (t0 s) \<and> t mod u_t_check self = 0 \<and>
           convergence_check self ppf (window self t (t0 s)) (Delta_history s) = Inr True
        then u_rho self * learning_rate s else learning_rate s)"
  using assms
  by (auto simp: check_and_reduce_def Let_def reduce_rate_fields split: if_splits sum.splits)

lemma sasa_body_parts:
  assumes "sasa_body self kl ppf objective t s = Inr (stop, s')"
  obtains s1 where "descent_step self objective s = Inr s1"
    "check_and_reduce self kl ppf t s1 = Inr s'"
    "stopping_rule self s' = Inr stop"
  using assms by (auto simp: sasa_body_def split: sum.splits)

text \<open>The learning rate after an iteration that completes.\<close>

lemma sasa_body_learning_rate:
  assumes "sasa_body self kl ppf objective t s = Inr (stop, s')"
  shows "learning_rate s' =
     (if u_W0 self \<le> window self t (t0 s) \<and> t mod u_t_check self = 0 \<and>
         convergence_check self ppf (window self t (t0 s)) (Delta_history s') = Inr True
      then u_rho self * learning_rate s else learning_rate s)"
proof -
  from assms obtain s1 where d: "descent_step self objective s = Inr s1"
    and c: "check_and_reduce self kl ppf t s1 = Inr s'"
    by (rule sasa_body_parts)
  note f = descent_step_fields[OF d]
  from check_and_reduce_rate[OF c] show ?thesis by (simp add: f(1) f(3))
qed

lemma sasa_body_below_window:
  assumes "sasa_body self kl ppf objective t s = Inr (stop, s')"
    and "window self t (t0 s) < u_W0 self"
  shows "learning_rate s' = learning_rate s" "t0 s' = t0 s"
proof -
  from assms(1) obtain s1 where d: "descent_step self objective s = Inr s1"
    and c: "check_and_reduce self kl ppf t s1 = Inr s'"
    by (rule sasa_body_parts)
  note f = descent_step_fields[OF d]
  from c assms(2) f(1) have "s' = s1" by (simp add: check_and_reduce_def)
  then show "learning_rate s' = learning_rate s" "t0 s' = t0 s" using f by simp_all
qed

lemma sasa_loop_below_window:
  "sasa_loop self kl ppf objective k t s = Inr s' \<Longrightarrow>
   (\<And>i. i < k \<Longrightarrow> window self (t + int i) (t0 s) < u_W0 self) \<Longrightarrow>
   learning_rate s' = learning_rate s"
proof (induction k arbitrary: t s)
  case 0
  then show ?case by simp
next
  case (Suc k)
  from Suc.prems(1) obtain stop s1 where
    b: "sasa_body self kl ppf objective t s = Inr (stop, s1)" and
    r: "if stop then s' = s1 else sasa_loop self kl ppf objective k (t + 1) s1 = Inr s'"
    by (auto split: sum.splits if_splits)
  have "window self t (t0 s) < u_W0 self" using Suc.prems(2)[of 0] by simp
  note f = sasa_body_below_window[OF b this]
  show ?case
  proof (cases stop)
    case True
    then show ?thesis using r f by simp
  next
    case False
    then have l: "sasa_loop self kl ppf objective k (t + 1) s1 = Inr s'" using r by simp
    have "window self (t + 1 + int i) (t0 s1) < u_W0 self" if "i < k" for i
    proof -
      have e: "t + 1 + int i = t + int (Suc i)" by simp
      have "window self (t + int (Suc i)) (t0 s) < u_W0 self"
        using Suc.prems(2)[of "Suc i"] that by simp
      then show ?thesis unfolding e f(2) .
    qed
    from Suc.IH[OF l this] f(1) show ?thesis by simp
  qed
qed

lemma sasa_loop_rate_power:
  "sasa_loop self kl ppf objective k t s = Inr s' \<Longrightarrow>
   \<exists>j. learning_rate s' = u_rho self ^ j * learning_rate s"
proof (induction k arbitrary: t s)
  case 0
  then have "learning_rate s' = u_rho self ^ 0 * learning_rate s" by simp
  then show ?case by blast
next
  case (Suc k)
  from Suc.prems(1) obtain stop s1 where
    b: "sasa_body self kl ppf objective t s = Inr (stop, s1)" and
    r: "if stop then s' = s1 else sasa_loop self kl ppf objective k (t + 1) s1 = Inr s'"
    by (auto split: sum.splits if_splits)
  from sasa_body_learning_rate[OF b] have
    "learning_rate s1 = u_rho self ^ 1 * learning_rate s \<or>
     learning_rate s1 = u_rho self ^ 0 * learning_rate s"
    by (simp split: if_splits)
  then obtain i where i: "learning_rate s1 = u_rho self ^ i * learning_rate s" by blast
  show ?case
  proof (cases stop)
    case True
    then have "s' = s1" using r by simp
    then show ?thesis using i by blast
  next
    case False
    then have "sasa_loop self kl ppf objective k (t + 1) s1 = Inr s'" using r by simp
    from Suc.IH[OF this] obtain j where "learning_rate s' = u_rho self ^ j * learning_rate s1"
      by blast
    then have "learning_rate s' = u_rho self ^ (j + i) * learning_rate s"
      using i by (simp add: power_add)
    then show ?thesis by blast
  qed
qed

lemma ex_descent_step:
  "descent_step ex_sasa_small ex_objective ex_state =
     Inr (ex_state\<lparr>heap := [[Fin (1/4)]],
            value_history := [Fin 0, Fin 0, Fin 0, Fin 0, Fin 0],
            variational_param_history := [0, 0, 0, 0, 0],
            Delta_history := [Fin 0, Fin 1, Fin 1, Fin (- 2), Fin 0]\<rparr>)"
  by (simp add: descent_step_def ex_state_def ex_sasa_small_def ex_objective_def
      ex_direction_public isub_def fsub_def dot_def fsum_def fsquare_def)

lemma ex_spec_stationary_5: "spec_stationary 2 2 [0, 1, 1, - 2, 0] = True"
proof -
  have b: "spec_batches 2 [0, 1, 1, - 2, 0] = [[1, 1], [- 2, 0]]"
    by (simp add: spec_batches_def spec_window_def numeral_2_eq_2)
  have mu: "spec_mu 2 [0, 1, 1, - 2, 0] = 0"
    by (simp add: spec_mu_def spec_window_def arith_mean_def)
  have s: "spec_sigma2 2 [0, 1, 1, - 2, 0] = 4"
    by (simp add: spec_sigma2_def b mu arith_mean_def)
  show ?thesis
    by (simp add: spec_stationary_def s mu)
qed

lemma ex_convergence_check:
  "convergence_check ex_sasa_small (\<lambda>q df. Fin 2) 4 [Fin 0, Fin 1, Fin 1, Fin (- 2), Fin 0] =
     Inr True"
  using convergence_check_finite[of 4 2 "[0, 1, 1, - 2, 0]" "\<lambda>q df. Fin 2" ex_sasa_small 2]
  by (simp add: batch_size_4 ex_spec_stationary_5)

lemma ex_sasa_body:
  "sasa_body ex_sasa_small (\<lambda>a b. Fin 0) (\<lambda>q df. Fin 2) ex_objective 4 ex_state =
     Inr (True, ex_state')"
proof -
  have w: "window ex_sasa_small 4 0 = 4"
    by (simp add: window_def ex_sasa_small_def)
  have c: "check_and_reduce ex_sasa_small (\<lambda>a b. Fin 0) (\<lambda>q df. Fin 2) 4
             (ex_state\<lparr>heap := [[Fin (1/4)]],
                value_history := [Fin 0, Fin 0, Fin 0, Fin 0, Fin 0],
                variational_param_history := [0, 0, 0, 0, 0],
                Delta_history := [Fin 0, Fin 1, Fin 1, Fin (- 2), Fin 0]\<rparr>) = Inr ex_state'"
    unfolding check_and_reduce_def Let_def
    by (simp add: ex_state_def w ex_convergence_check)
       (simp add: ex_sasa_small_def reduce_rate_def batch_size_4 slice_from_def mean_axis0_def
        fmean_def fsum_def ex_state'_def)
  show ?thesis
    by (simp add: sasa_body_def ex_descent_step c)
       (simp add: stopping_rule_def ex_state'_def ex_sasa_small_def)
qed

text \<open>
  Claim C6. An iteration of \<open>convergence_test\<close> that completes changes the learning
  rate exactly when the window condition \<open>W >= W0\<close> holds, \<open>t\<close> is a multiple of
  \<open>t_check\<close> and the stationarity test returns \<open>True\<close>; the new rate is then
  \<open>rho\<close> times the previous one, and otherwise the rate is unchanged. So it is not
  reduced while \<open>W < W0\<close> (\<open>sasa_loop_below_window\<close>), and over a run it is the
  initial rate times a power of \<open>rho\<close> (\<open>sasa_loop_rate_power\<close>).
\<close>

theorem learning_rate_step:
  assumes "sasa_body self kl ppf objective t s = Inr (stop, s')"
  shows "learning_rate s' =
     (if u_W0 self \<le> window self t (t0 s) \<and> t mod u_t_check self = 0 \<and>
         convergence_check self ppf (window self t (t0 s)) (Delta_history s') = Inr True
      then u_rho self * learning_rate s else learning_rate s)"
  using assms by (rule sasa_body_learning_rate)

theorem learning_rate_step_witness:
  "sasa_body ex_sasa_small (\<lambda>a b. Fin 0) (\<lambda>q df. Fin 2) ex_objective 4 ex_state =
     Inr (True, ex_state') \<and>
   learning_rate ex_state' = u_rho ex_sasa_small * learning_rate ex_state \<and>
   learning_rate ex_state = 1 \<and> learning_rate ex_state' = 1/2"
  using learning_rate_step[OF ex_sasa_body] ex_sasa_body
  by (simp add: ex_state_def ex_state'_def ex_sasa_small_def)

end
